theory Spec2Isabelle
  imports Complex_Main "HOL-Library.Word" "HOL-Library.Signed_Division" "HOL-Library.Sublist"
begin

unbundle bit_operations_syntax

section \<open>qjson: the decoder of src/qjson.c\<close>

text \<open>
  A shallow embedding of \<^verbatim>\<open>qjson.c\<close>, the C library behind the Python module
  \<^verbatim>\<open>qjson2json\<close>. Conventions of the embedding:

  \<^item> a \<^verbatim>\<open>byte\<close> (\<^verbatim>\<open>unsigned char\<close>) is an \<open>8 word\<close>; a C string or a
    \<^verbatim>\<open>slice_t\<close> (pointer and length into the input) is the list of its bytes;
  \<^item> the target is the x86-64 ABI: plain \<^verbatim>\<open>char\<close> is signed, \<^verbatim>\<open>int\<close> has 32 bits,
    \<^verbatim>\<open>int64_t\<close> arithmetic wraps, and the division instruction raises a divide error when
    the quotient is not representable;
  \<^item> the \<^verbatim>\<open>int\<close> fields that hold offsets, lengths and line numbers never go negative and
    are natural numbers here (inputs are shorter than \<open>2^31\<close> bytes);
  \<^item> a \<^verbatim>\<open>double\<close> is an IEEE 754 binary64 value, and its arithmetic rounds to nearest, ties
    to even, one operation at a time (SSE2, no fused multiply-add);
  \<^item> of the global \<^verbatim>\<open>errno\<close> the program reads only whether it is \<^verbatim>\<open>ERANGE\<close>: that flag is a
    field of both engines, and its value when \<^verbatim>\<open>qjson_decode\<close> is entered is an argument;
  \<^item> a static error string is a constructor of \<open>err\<close>; comparing two such pointers is
    comparing constructors;
  \<^item> a function that takes \<^verbatim>\<open>engine_t *e\<close> and mutates it takes the state and returns the
    new one together with its C return value and out-parameters;
  \<^item> memory allocation is not modelled: the output buffer is the list of the bytes written.
\<close>

type_synonym byte = "8 word"
type_synonym slice_t = "byte list"

definition bytes :: "string \<Rightarrow> byte list" where
  "bytes str = map of_char str"

definition maxDepth :: nat where
  "maxDepth = 200"

definition char_signed :: bool where
  "char_signed = True"

text \<open>The value of a plain \<^verbatim>\<open>char\<close> after integer promotion.\<close>

definition char_val :: "byte \<Rightarrow> int" where
  "char_val c = (if char_signed then sint c else uint c)"

record pos_t =
  pos_b :: nat
  pos_s :: nat
  pos_l :: nat

datatype tokenTag_t =
    tagUnknown | tagError | tagIntegerVal | tagDecimalVal
  | tagPlus | tagMinus | tagMultiplication | tagDivision
  | tagXor | tagAnd | tagOr | tagInverse | tagModulo
  | tagOpenParen | tagCloseParen
  | tagWeeks | tagDays | tagHours | tagMinutes | tagSeconds
  | tagOpenBrace | tagCloseBrace | tagOpenSquare | tagCloseSquare
  | tagColon | tagQuotelessString | tagDoubleQuotedString | tagSingleQuotedString
  | tagMultilineString | tagComma

datatype err =
    ErrEndOfInput | ErrInvalidChar | ErrTruncatedChar | ErrSyntaxError
  | ErrUnclosedDoubleQuoteString | ErrUnclosedSingleQuoteString
  | ErrUnclosedSlashStarComment
  | ErrNewlineInDoubleQuoteString | ErrNewlineInSingleQuoteString
  | ErrExpectStringIdentifier | ErrExpectColon | ErrInvalidValueType
  | ErrMaxObjectArrayDepth | ErrUnclosedObject | ErrUnclosedArray
  | ErrUnexpectedEndOfInput | ErrExpectIdentifierAfterComma | ErrExpectValueAfterComma
  | ErrInvalidEscapeSequence | ErrInvalidNumericExpression
  | ErrInvalidBinaryNumber | ErrInvalidHexadecimalNumber | ErrInvalidOctalNumber
  | ErrInvalidIntegerNumber | ErrInvalidDecimalNumber | ErrNumberOverflow
  | ErrUnopenedParenthesis | ErrDivisionByZero | ErrUnclosedParenthesis
  | ErrOperandMustBeInteger | ErrOperandsMustBeInteger
  | ErrMarginMustBeWhitespaceOnly | ErrUnclosedMultiline | ErrInvalidMarginChar
  | ErrMissingNewlineSpecifier | ErrInvalidNewlineSpecifier | ErrInvalidMultilineStart
  | ErrUnexpectedCloseBrace | ErrUnexpectedCloseSquare | ErrInvalidISODateTime

text \<open>
  The text of each static error string, as the source spells it; the two bytes \<open>C2 A0\<close> in
  \<^verbatim>\<open>ErrTruncatedChar\<close> are the no-break space of the source's literal.
\<close>

fun err_str :: "err \<Rightarrow> string" where
  "err_str ErrEndOfInput = ''end of input''"
| "err_str ErrInvalidChar = ''invalid character''"
| "err_str ErrTruncatedChar = ''last utf8'' @ [CHR 0xC2, CHR 0xA0] @ ''char is truncated''"
| "err_str ErrSyntaxError = ''syntax error''"
| "err_str ErrUnclosedDoubleQuoteString = ''unclosed double quote string''"
| "err_str ErrUnclosedSingleQuoteString = ''unclosed single quote string''"
| "err_str ErrUnclosedSlashStarComment = ''unclosed /*...*/ comment''"
| "err_str ErrNewlineInDoubleQuoteString = ''newline in double quoted string''"
| "err_str ErrNewlineInSingleQuoteString = ''newline in single quoted string''"
| "err_str ErrExpectStringIdentifier = ''expect string identifier''"
| "err_str ErrExpectColon = ''expect a colon''"
| "err_str ErrInvalidValueType = ''invalid value type''"
| "err_str ErrMaxObjectArrayDepth = ''too many object or array encapsulations''"
| "err_str ErrUnclosedObject = ''unclosed object''"
| "err_str ErrUnclosedArray = ''unclosed array''"
| "err_str ErrUnexpectedEndOfInput = ''unexpected end of input''"
| "err_str ErrExpectIdentifierAfterComma = ''expect identifier after comma''"
| "err_str ErrExpectValueAfterComma = ''expect value after comma''"
| "err_str ErrInvalidEscapeSequence = ''invalid escape squence''"
| "err_str ErrInvalidNumericExpression = ''invalid numeric expression''"
| "err_str ErrInvalidBinaryNumber = ''invalid binary number''"
| "err_str ErrInvalidHexadecimalNumber = ''invalid hexadecimal number''"
| "err_str ErrInvalidOctalNumber = ''invalid octal number''"
| "err_str ErrInvalidIntegerNumber = ''invalid integer number''"
| "err_str ErrInvalidDecimalNumber = ''invalid decimal number''"
| "err_str ErrNumberOverflow = ''number overflow''"
| "err_str ErrUnopenedParenthesis = ''missing open parenthesis''"
| "err_str ErrDivisionByZero = ''division by zero''"
| "err_str ErrUnclosedParenthesis = ''missing close parenthesis''"
| "err_str ErrOperandMustBeInteger = ''operand must be integer''"
| "err_str ErrOperandsMustBeInteger = ''operands must be integer''"
| "err_str ErrMarginMustBeWhitespaceOnly = ''multiline margin must contain only whitespaces''"
| "err_str ErrUnclosedMultiline = ''unclosed multiline''"
| "err_str ErrInvalidMarginChar = ''invalid margin character''"
| "err_str ErrMissingNewlineSpecifier = [CHR ''m'', CHR ''i'', CHR ''s'', CHR ''s'', CHR ''i'', CHR ''n'', CHR ''g'', CHR '' '', CHR 0x5C, CHR ''n'', CHR '' '', CHR ''o'', CHR ''r'', CHR '' '', CHR 0x5C, CHR ''r'', CHR 0x5C, CHR ''n''] @ '' after multiline start''"
| "err_str ErrInvalidNewlineSpecifier = ''expect '' @ [CHR 0x5C, CHR ''n'', CHR '' '', CHR ''o'', CHR ''r'', CHR '' '', CHR 0x5C, CHR ''r'', CHR 0x5C, CHR ''n''] @ '' after `''"
| "err_str ErrInvalidMultilineStart = ''invalid multiline start line''"
| "err_str ErrUnexpectedCloseBrace = ''unexpected }''"
| "err_str ErrUnexpectedCloseSquare = ''unexpected ]''"
| "err_str ErrInvalidISODateTime = ''invalid ISO date time''"

text \<open>\<^verbatim>\<open>error_t\<close>: the position of the error and its message.\<close>

type_synonym error_t = "pos_t \<times> err"

definition newError :: "pos_t \<Rightarrow> err \<Rightarrow> error_t" where
  "newError ps er = (ps, er)"

text \<open>
  The \<^verbatim>\<open>val\<close> field of a token is a \<^verbatim>\<open>slice_t\<close> that is either \<^verbatim>\<open>{NULL, 0}\<close>, a slice of
  the input, or one of the static error strings with its length.
\<close>

datatype tkval = NullVal | Slice slice_t | ErrVal err

record token_t =
  tk_tag :: tokenTag_t
  tk_pos :: pos_t
  tk_val :: tkval

text \<open>
  The fields \<^verbatim>\<open>in\<close>, \<^verbatim>\<open>p\<close> and \<^verbatim>\<open>pos\<close> of \<^verbatim>\<open>engine_t\<close> are all that the tokenizer's
  helper functions read and write; they are grouped in one record, which \<open>engine_t\<close>
  holds next to the output buffer, the current token and the depth.
\<close>

record lexer_t =
  lx_in :: "byte list"
  lx_p :: "byte list"
  lx_pos :: pos_t

record engine_t =
  e_lx :: lexer_t
  e_out :: "byte list"
  e_tk :: token_t
  e_depth :: nat
  e_erange :: bool

subsection \<open>Tokenizer\<close>

fun whitespace :: "slice_t \<Rightarrow> nat" where
  "whitespace [] = 0"
| "whitespace (c # cs) =
     (if c = 0x20 \<or> c = 0x09 then 1
      else if cs \<noteq> [] \<and> c = 0xC2 \<and> hd cs = 0xA0 then 2
      else 0)"

fun newline :: "slice_t \<Rightarrow> nat" where
  "newline [] = 0"
| "newline (c # cs) =
     (if c = 0x0A then 1
      else if cs \<noteq> [] \<and> c = 0x0D \<and> hd cs = 0x0A then 2
      else 0)"

definition popBytes :: "lexer_t \<Rightarrow> nat \<Rightarrow> lexer_t" where
  "popBytes lx n =
     lx\<lparr>lx_p := drop n (lx_p lx), lx_pos := (lx_pos lx)\<lparr>pos_b := pos_b (lx_pos lx) + n\<rparr>\<rparr>"

definition popNewline :: "lexer_t \<Rightarrow> bool \<times> lexer_t" where
  "popNewline lx =
     (let n = newline (lx_p lx) in
      if n = 0 then (False, lx)
      else let lx' = popBytes lx n in
        (True, lx'\<lparr>lx_pos := (lx_pos lx')\<lparr>pos_s := pos_b (lx_pos lx'),
                                           pos_l := pos_l (lx_pos lx') + 1\<rparr>\<rparr>))"

definition s0 :: byte where "s0 = 0x00"
definition s1 :: byte where "s1 = 0x01"
definition s2 :: byte where "s2 = 0x12"
definition s3 :: byte where "s3 = 0x23"
definition s4 :: byte where "s4 = 0x13"
definition s5 :: byte where "s5 = 0x33"
definition s6 :: byte where "s6 = 0x44"
definition s7 :: byte where "s7 = 0x14"
definition s8 :: byte where "s8 = 0x54"

text \<open>
  \<^verbatim>\<open>utf8Table[256]\<close>, row by row: TAB and 0x20..0x7F are \<open>s1\<close>; the other bytes below
  0xC2 are \<open>s0\<close>; 0xC2..0xDF are \<open>s2\<close>; 0xE0 is \<open>s3\<close>, 0xED is \<open>s5\<close>, the other bytes
  0xE1..0xEF are \<open>s4\<close>; 0xF0 is \<open>s6\<close>, 0xF1..0xF3 are \<open>s7\<close>, 0xF4 is \<open>s8\<close>, and
  0xF5..0xFF are \<open>s0\<close>.
\<close>

definition utf8Table :: "byte \<Rightarrow> byte" where
  "utf8Table c =
     (if c = 0x09 then s1
      else if c < 0x20 then s0
      else if c < 0x80 then s1
      else if c < 0xC2 then s0
      else if c < 0xE0 then s2
      else if c = 0xE0 then s3
      else if c = 0xED then s5
      else if c < 0xF0 then s4
      else if c = 0xF0 then s6
      else if c < 0xF4 then s7
      else if c = 0xF4 then s8
      else s0)"

definition utf8lo :: byte where "utf8lo = 0x80"
definition utf8hi :: byte where "utf8hi = 0xBF"

definition utf8Range :: "byte list" where
  "utf8Range = [0, 0, utf8lo, utf8hi, 0xA0, utf8hi, utf8lo, 0x9F, 0x90, utf8hi, utf8lo, 0x8F,
                0, 0, 0, 0]"

definition qcharX :: "lexer_t \<Rightarrow> byte \<Rightarrow> error_t option \<times> nat" where
  "qcharX lx x =
     (if x = s0 then (Some (newError (lx_pos lx) ErrInvalidChar), 0)
      else let n = unat (x AND 0xF) in
        if n > length (lx_p lx) then (Some (newError (lx_pos lx) ErrTruncatedChar), 0)
        else let b2 = lx_p lx ! 1; r = unat (push_bit 1 (drop_bit 4 x) :: byte) in
          if b2 < utf8Range ! r \<or> b2 > utf8Range ! (r + 1)
          then (Some (newError (lx_pos lx) ErrInvalidChar), 0)
          else if n \<ge> 3 \<and> (lx_p lx ! 2 < utf8lo \<or> char_val (lx_p lx ! 2) > uint utf8hi)
          then (Some (newError (lx_pos lx) ErrInvalidChar), 0)
          else if n \<ge> 3 \<and> n = 4 \<and>
                  (lx_p lx ! 3 < utf8lo \<or> char_val (lx_p lx ! 3) > uint utf8hi)
          then (Some (newError (lx_pos lx) ErrInvalidChar), 0)
          else (None, n))"

definition qchar :: "lexer_t \<Rightarrow> error_t option \<times> nat" where
  "qchar lx =
     (if lx_p lx = [] then (None, 0)
      else let x = utf8Table (hd (lx_p lx)) in
        if x = s1 then (None, 1) else qcharX lx x)"


lemma utf8Table_cases:
  "utf8Table c = s0 \<or> utf8Table c = s1 \<or> utf8Table c = s2 \<or> utf8Table c = s3 \<or>
   utf8Table c = s4 \<or> utf8Table c = s5 \<or> utf8Table c = s6 \<or> utf8Table c = s7 \<or>
   utf8Table c = s8"
  by (simp add: utf8Table_def)

lemma utf8Table_len_pos: "utf8Table c \<noteq> s0 \<Longrightarrow> 0 < unat (utf8Table c AND 0xF)"
  using utf8Table_cases [of c]
  by (auto simp: s0_def s1_def s2_def s3_def s4_def s5_def s6_def s7_def s8_def)

lemma qchar_pos: "qchar lx = (None, n) \<Longrightarrow> lx_p lx \<noteq> [] \<Longrightarrow> 0 < n"
  using utf8Table_len_pos [of "hd (lx_p lx)"]
  by (auto simp: qchar_def qcharX_def Let_def split: if_splits)

lemma qchar_pos': "(None, n) = qchar lx \<Longrightarrow> lx_p lx \<noteq> [] \<Longrightarrow> 0 < n"
  using qchar_pos [of lx n] by simp

lemma length_diff_less: "xs \<noteq> [] \<Longrightarrow> 0 < n \<Longrightarrow> length xs - n < length xs"
  by (cases xs) auto

lemma popBytes_length [simp]: "length (lx_p (popBytes lx n)) = length (lx_p lx) - n"
  by (simp add: popBytes_def)

lemma popBytes_in [simp]: "lx_in (popBytes lx n) = lx_in lx"
  by (simp add: popBytes_def)

lemma whitespace_pos: "whitespace p \<noteq> 0 \<Longrightarrow> p \<noteq> []"
  by (cases p) auto

lemma newline_pos: "newline p \<noteq> 0 \<Longrightarrow> p \<noteq> []"
  by (cases p) auto

lemma popNewline_length:
  "popNewline lx = (True, lx') \<Longrightarrow> length (lx_p lx') < length (lx_p lx)"
  by (auto simp: popNewline_def Let_def split: if_splits intro!: length_diff_less dest: newline_pos)

lemma popNewline_False: "popNewline lx = (False, lx') \<Longrightarrow> lx' = lx"
  by (auto simp: popNewline_def Let_def split: if_splits)

text \<open>\<^verbatim>\<open>column\<close>: the loop, with \<open>cnt\<close> as accumulator.\<close>

function column_loop :: "slice_t \<Rightarrow> nat \<Rightarrow> nat" where
  "column_loop p cnt =
     (if p = [] then cnt
      else let n = unat (utf8Table (hd p) AND 0xF) in
        if n = 0 \<or> n > length p then cnt
        else column_loop (drop n p) (cnt + 1))"
  by pat_completeness auto
termination
  by (relation "measure (\<lambda>(p, cnt). length p)") auto

definition column :: "slice_t \<Rightarrow> nat" where
  "column p = column_loop p 0"

function skipRestOfLine :: "lexer_t \<Rightarrow> error_t option \<times> lexer_t" where
  "skipRestOfLine lx =
     (case popNewline lx of
        (True, lx') \<Rightarrow> (None, lx')
      | (False, _) \<Rightarrow>
          if lx_p lx = [] then (None, lx)
          else (case qchar lx of
                  (Some er, _) \<Rightarrow> (Some er, lx)
                | (None, n) \<Rightarrow> skipRestOfLine (popBytes lx n)))"
  by pat_completeness auto
termination
  by (relation "measure (\<lambda>lx. length (lx_p lx))") (auto dest: qchar_pos' intro!: length_diff_less)

definition skipLineComment :: "lexer_t \<Rightarrow> error_t option \<times> bool \<times> lexer_t" where
  "skipLineComment lx =
     (if lx_p lx = [] then (None, False, lx)
      else if hd (lx_p lx) = 0x23 \<or>
              (hd (lx_p lx) = 0x2F \<and> length (lx_p lx) \<ge> 2 \<and> lx_p lx ! 1 = 0x2F)
      then (case skipRestOfLine lx of
              (None, lx') \<Rightarrow> (None, True, lx')
            | (Some er, lx') \<Rightarrow> (Some er, False, lx'))
      else (None, False, lx))"

function skipMultilineComment_loop :: "pos_t \<Rightarrow> lexer_t \<Rightarrow> error_t option \<times> bool \<times> lexer_t" where
  "skipMultilineComment_loop startPos lx =
     (if lx_p lx = [] then (Some (newError startPos ErrUnclosedSlashStarComment), False, lx)
      else if hd (lx_p lx) = 0x2A \<and> length (lx_p lx) \<ge> 2 \<and> lx_p lx ! 1 = 0x2F
      then (None, True, popBytes lx 2)
      else (case popNewline lx of
              (True, lx') \<Rightarrow> skipMultilineComment_loop startPos lx'
            | (False, _) \<Rightarrow>
                if char_val (hd (lx_p lx)) < 0x20
                then skipMultilineComment_loop startPos (popBytes lx 1)
                else (case qchar lx of
                        (Some er, _) \<Rightarrow> (Some er, False, lx)
                      | (None, n) \<Rightarrow> skipMultilineComment_loop startPos (popBytes lx n))))"
  by pat_completeness auto
termination
  by (relation "measure (\<lambda>(startPos, lx). length (lx_p lx))")
     (auto dest: qchar_pos' popNewline_length [OF sym] intro!: length_diff_less)

definition skipMultilineComment :: "lexer_t \<Rightarrow> error_t option \<times> bool \<times> lexer_t" where
  "skipMultilineComment lx =
     (if lx_p lx = [] \<or> hd (lx_p lx) \<noteq> 0x2F \<or> length (lx_p lx) < 2 \<or> lx_p lx ! 1 \<noteq> 0x2A
      then (None, False, lx)
      else skipMultilineComment_loop (lx_pos lx) (popBytes lx 2))"

function skipWhitespaces :: "lexer_t \<Rightarrow> lexer_t" where
  "skipWhitespaces lx =
     (let n = whitespace (lx_p lx) in
      if n = 0 then lx else skipWhitespaces (popBytes lx n))"
  by pat_completeness auto
termination
  by (relation "measure (\<lambda>lx. length (lx_p lx))") (auto dest: whitespace_pos intro!: length_diff_less)

text \<open>
  The slice \<^verbatim>\<open>{e->in + startPos.b, e->pos.b - startPos.b}\<close> that the string tokenizers
  return.
\<close>

definition in_slice :: "lexer_t \<Rightarrow> nat \<Rightarrow> nat \<Rightarrow> slice_t" where
  "in_slice lx start len = take len (drop start (lx_in lx))"

function doubleQuotedString_loop ::
  "pos_t \<Rightarrow> lexer_t \<Rightarrow> error_t option \<times> slice_t option \<times> lexer_t" where
  "doubleQuotedString_loop startPos lx =
     (if lx_p lx = [] then (Some (newError startPos ErrUnclosedDoubleQuoteString), None, lx)
      else if hd (lx_p lx) = 0x5C \<and> length (lx_p lx) > 1 \<and> lx_p lx ! 1 = 0x22
      then doubleQuotedString_loop startPos (popBytes lx 2)
      else if hd (lx_p lx) = 0x22
      then (let lx' = popBytes lx 1 in
            (None, Some (in_slice lx' (pos_b startPos) (pos_b (lx_pos lx') - pos_b startPos)), lx'))
      else if newline (lx_p lx) \<noteq> 0
      then (Some (newError startPos ErrNewlineInDoubleQuoteString), None, lx)
      else (case qchar lx of
              (Some er, _) \<Rightarrow> (Some er, None, lx)
            | (None, n) \<Rightarrow> doubleQuotedString_loop startPos (popBytes lx n)))"
  by pat_completeness auto
termination
  by (relation "measure (\<lambda>(startPos, lx). length (lx_p lx))")
     (auto dest: qchar_pos' intro!: length_diff_less)

definition doubleQuotedString :: "lexer_t \<Rightarrow> error_t option \<times> slice_t option \<times> lexer_t" where
  "doubleQuotedString lx =
     (if lx_p lx = [] \<or> hd (lx_p lx) \<noteq> 0x22 then (None, None, lx)
      else doubleQuotedString_loop (lx_pos lx) (popBytes lx 1))"

function singleQuotedString_loop ::
  "pos_t \<Rightarrow> lexer_t \<Rightarrow> error_t option \<times> slice_t option \<times> lexer_t" where
  "singleQuotedString_loop startPos lx =
     (if lx_p lx = [] then (Some (newError startPos ErrUnclosedSingleQuoteString), None, lx)
      else if hd (lx_p lx) = 0x5C \<and> length (lx_p lx) \<ge> 2 \<and> lx_p lx ! 1 = 0x27
      then singleQuotedString_loop startPos (popBytes lx 2)
      else if hd (lx_p lx) = 0x27
      then (let lx' = popBytes lx 1 in
            (None, Some (in_slice lx' (pos_b startPos) (pos_b (lx_pos lx') - pos_b startPos)), lx'))
      else if newline (lx_p lx) \<noteq> 0
      then (Some (newError startPos ErrNewlineInSingleQuoteString), None, lx)
      else (case qchar lx of
              (Some er, _) \<Rightarrow> (Some er, None, lx)
            | (None, n) \<Rightarrow> singleQuotedString_loop startPos (popBytes lx n)))"
  by pat_completeness auto
termination
  by (relation "measure (\<lambda>(startPos, lx). length (lx_p lx))")
     (auto dest: qchar_pos' intro!: length_diff_less)

definition singleQuotedString :: "lexer_t \<Rightarrow> error_t option \<times> slice_t option \<times> lexer_t" where
  "singleQuotedString lx =
     (if lx_p lx = [] \<or> hd (lx_p lx) \<noteq> 0x27 then (None, None, lx)
      else singleQuotedString_loop (lx_pos lx) (popBytes lx 1))"


declare column_loop.simps [simp del] skipRestOfLine.simps [simp del]
  skipMultilineComment_loop.simps [simp del] skipWhitespaces.simps [simp del]
  doubleQuotedString_loop.simps [simp del] singleQuotedString_loop.simps [simp del]

text \<open>\<^verbatim>\<open>inRange\<close> compares after an unsigned 8-bit subtraction.\<close>

definition inRange :: "byte \<Rightarrow> byte \<Rightarrow> byte \<Rightarrow> bool" where
  "inRange v lo hi = (v - lo \<le> hi - lo)"

definition isIntDigit :: "byte \<Rightarrow> bool" where
  "isIntDigit v = inRange v 0x30 0x39"

text \<open>
  \<^verbatim>\<open>parseISODateTimeLiteral\<close>, in three parts: the time offset at the end, the optional
  fraction of a second before it, and the date, hours, minutes and seconds in front.
  The first argument of the two helpers is the count \<open>n\<close> of bytes matched so far.
\<close>

definition parseISO_offset :: "int \<Rightarrow> slice_t \<Rightarrow> int" where
  "parseISO_offset n v =
     (if v = [] then n
      else if hd v = 0x5A then n + 1
      else if hd v \<noteq> 0x2B \<and> hd v \<noteq> 0x2D then n
      else let w = tl v in
        if length w < 5 \<or> w ! 2 \<noteq> 0x3A \<or> \<not> isIntDigit (w ! 0) \<or> \<not> isIntDigit (w ! 1) \<or>
           \<not> isIntDigit (w ! 3) \<or> \<not> isIntDigit (w ! 4)
        then -1
        else n + 1 + 5)"

definition parseISO_fraction :: "int \<Rightarrow> slice_t \<Rightarrow> int" where
  "parseISO_fraction n v =
     (if hd v = 0x2E
      then (let w = tl v; p = length (takeWhile isIntDigit w) in
            if p \<noteq> 6 \<and> p \<noteq> 3 then -1
            else parseISO_offset (n + 1 + int p) (drop p w))
      else parseISO_offset n v)"

definition parseISODateTimeLiteral :: "slice_t \<Rightarrow> int" where
  "parseISODateTimeLiteral v =
     (if length v < 11 \<or> v ! 10 \<noteq> 0x54 \<or> v ! 4 \<noteq> 0x2D \<or> v ! 7 \<noteq> 0x2D \<or>
         \<not> isIntDigit (v ! 0) \<or> \<not> isIntDigit (v ! 1) \<or> \<not> isIntDigit (v ! 2) \<or>
         \<not> isIntDigit (v ! 3) \<or> \<not> isIntDigit (v ! 5) \<or> \<not> isIntDigit (v ! 6) \<or>
         \<not> isIntDigit (v ! 8) \<or> \<not> isIntDigit (v ! 9)
      then 0
      else let v1 = drop 11 v in
        if v1 = [] then 11
        else if length v1 < 5 \<or> v1 ! 2 \<noteq> 0x3A \<or> \<not> isIntDigit (v1 ! 0) \<or>
                \<not> isIntDigit (v1 ! 1) \<or> \<not> isIntDigit (v1 ! 3) \<or> \<not> isIntDigit (v1 ! 4)
        then -1
        else let v2 = drop 5 v1 in
          if v2 = [] then 16
          else if hd v2 = 0x5A then 17
          else if hd v2 \<noteq> 0x3A then 16
          else if length v2 < 3 \<or> \<not> isIntDigit (v2 ! 1) \<or> \<not> isIntDigit (v2 ! 2) then -1
          else let v3 = drop 3 v2 in
            if v3 = [] then 19
            else if hd v3 = 0x5A then 20
            else if hd v3 \<noteq> 0x2E \<and> hd v3 \<noteq> 0x2B \<and> hd v3 \<noteq> 0x2D then 19
            else parseISO_fraction 19 v3)"

text \<open>
  \<^verbatim>\<open>lenISODateTime\<close> looks 13 bytes back from \<^verbatim>\<open>e->p.p\<close>, which is \<^verbatim>\<open>e->in + e->pos.b\<close>.
\<close>

definition lenISODateTime :: "lexer_t \<Rightarrow> nat" where
  "lenISODateTime lx =
     (if hd (lx_p lx) = 0x3A \<and> pos_b (lx_pos lx) \<ge> 13
      then (let n = parseISODateTimeLiteral (drop (pos_b (lx_pos lx) - 13) (lx_in lx)) in
            if n > 13 then nat (n - 13) else 0)
      else 0)"

text \<open>\<^verbatim>\<open>stopByte[256]\<close>: the entries that are 1.\<close>

definition stopByte :: "byte \<Rightarrow> bool" where
  "stopByte c = (c = 0x0A \<or> c = 0x0D \<or> c = 0x23 \<or> c = 0x2C \<or> c = 0x2F \<or> c = 0x3A \<or>
                 c = 0x5B \<or> c = 0x5D \<or> c = 0x7B \<or> c = 0x7D)"

lemma skipWhitespaces_length: "length (lx_p (skipWhitespaces lx)) \<le> length (lx_p lx)"
proof (induction lx rule: skipWhitespaces.induct)
  case (1 lx)
  show ?case
  proof (cases "whitespace (lx_p lx) = 0")
    case True
    then show ?thesis by (simp add: skipWhitespaces.simps [of lx])
  next
    case False
    with "1" have "length (lx_p (skipWhitespaces (popBytes lx (whitespace (lx_p lx)))))
        \<le> length (lx_p lx) - whitespace (lx_p lx)"
      by simp
    with False show ?thesis by (simp add: skipWhitespaces.simps [of lx] Let_def)
  qed
qed

lemma skipWhitespaces_less:
  assumes "whitespace (lx_p lx) \<noteq> 0"
  shows "length (lx_p (skipWhitespaces lx)) < length (lx_p lx)"
proof -
  let ?n = "whitespace (lx_p lx)"
  have ne: "lx_p lx \<noteq> []" using assms by (rule whitespace_pos)
  have "length (lx_p lx) - ?n < length (lx_p lx)"
    using ne assms by (intro length_diff_less) auto
  moreover have "length (lx_p (skipWhitespaces (popBytes lx ?n))) \<le> length (lx_p lx) - ?n"
    using skipWhitespaces_length [of "popBytes lx ?n"] by simp
  moreover have "skipWhitespaces lx = skipWhitespaces (popBytes lx ?n)"
    using assms by (simp add: skipWhitespaces.simps [of lx] Let_def)
  ultimately show ?thesis by simp
qed

lemma skipWhitespaces_less': "0 < whitespace (lx_p lx) \<Longrightarrow>
    length (lx_p (skipWhitespaces lx)) < length (lx_p lx)"
  by (rule skipWhitespaces_less) simp

function quotelessString_loop :: "nat \<Rightarrow> lexer_t \<Rightarrow> error_t option \<times> nat \<times> lexer_t" where
  "quotelessString_loop endIdx lx =
     (if lx_p lx = [] then (None, endIdx, lx)
      else if whitespace (lx_p lx) \<noteq> 0 then quotelessString_loop endIdx (skipWhitespaces lx)
      else if stopByte (hd (lx_p lx)) \<and>
              ((hd (lx_p lx) = 0x2F \<and> length (lx_p lx) > 1 \<and>
                  (lx_p lx ! 1 = 0x2F \<or> lx_p lx ! 1 = 0x2A)) \<or>
               newline (lx_p lx) \<noteq> 0 \<or> (hd (lx_p lx) \<noteq> 0x0D \<and> hd (lx_p lx) \<noteq> 0x2F))
      then (let n = lenISODateTime lx in
            if n = 0 then (None, endIdx, lx)
            else let lx' = popBytes lx n in quotelessString_loop (pos_b (lx_pos lx')) lx')
      else (case qchar lx of
              (Some er, _) \<Rightarrow> (Some er, endIdx, lx)
            | (None, n) \<Rightarrow>
                let lx' = popBytes lx n in quotelessString_loop (pos_b (lx_pos lx')) lx'))"
  by pat_completeness auto
termination
  by (relation "measure (\<lambda>(endIdx, lx). length (lx_p lx))")
     (auto dest: qchar_pos' intro!: length_diff_less skipWhitespaces_less')

declare quotelessString_loop.simps [simp del]

definition quotelessString :: "lexer_t \<Rightarrow> error_t option \<times> slice_t option \<times> lexer_t" where
  "quotelessString lx =
     (let startPos = lx_pos lx in
      case quotelessString_loop (pos_b startPos) lx of
        (Some er, _, lx') \<Rightarrow> (Some er, None, lx')
      | (None, endIdx, lx') \<Rightarrow>
          if pos_b startPos = endIdx then (None, None, lx')
          else (None, Some (in_slice lx' (pos_b startPos) (endIdx - pos_b startPos)), lx'))"

text \<open>\<^verbatim>\<open>tkTagTable[256]\<close>: the entries that are not \<^verbatim>\<open>tagUnknown\<close>.\<close>

definition tkTagTable :: "byte \<Rightarrow> tokenTag_t" where
  "tkTagTable c =
     (if c = 0x2C then tagComma
      else if c = 0x3A then tagColon
      else if c = 0x5B then tagOpenSquare
      else if c = 0x5D then tagCloseSquare
      else if c = 0x7B then tagOpenBrace
      else if c = 0x7D then tagCloseBrace
      else tagUnknown)"

definition delimiter :: "lexer_t \<Rightarrow> tokenTag_t \<times> lexer_t" where
  "delimiter lx =
     (let tag = tkTagTable (hd (lx_p lx)) in
      if tag \<noteq> tagUnknown then (tag, popBytes lx 1) else (tag, lx))"


lemma skipRestOfLine_length:
  "skipRestOfLine lx = (r, lx') \<Longrightarrow> length (lx_p lx') \<le> length (lx_p lx)"
proof (induction lx arbitrary: r lx' rule: skipRestOfLine.induct)
  case (1 lx)
  show ?case
  proof (cases "popNewline lx")
    case (Pair t lx1)
    show ?thesis
    proof (cases t)
      case True
      with Pair "1.prems" popNewline_length [of lx lx1] show ?thesis
        by (simp add: skipRestOfLine.simps [of lx])
    next
      case False
      show ?thesis
      proof (cases "lx_p lx = []")
        case True
        with Pair False "1.prems" show ?thesis by (simp add: skipRestOfLine.simps [of lx])
      next
        case ne: False
        show ?thesis
        proof (cases "qchar lx")
          case qc: (Pair eo n)
          show ?thesis
          proof (cases eo)
            case None
            with Pair False ne qc "1.prems"
            have "skipRestOfLine (popBytes lx n) = (r, lx')"
              by (simp add: skipRestOfLine.simps [of lx])
            with "1.IH" [OF Pair [symmetric] _ ne qc [symmetric]] False None
            have "length (lx_p lx') \<le> length (lx_p (popBytes lx n))" by simp
            then show ?thesis by simp
          next
            case (Some er)
            with Pair False ne qc "1.prems" show ?thesis
              by (simp add: skipRestOfLine.simps [of lx])
          qed
        qed
      qed
    qed
  qed
qed

lemma skipRestOfLine_less:
  assumes "lx_p lx \<noteq> []" and "skipRestOfLine lx = (None, lx')"
  shows "length (lx_p lx') < length (lx_p lx)"
proof (cases "popNewline lx")
  case (Pair t lx1)
  show ?thesis
  proof (cases t)
    case True
    with Pair assms popNewline_length [of lx lx1] show ?thesis
      by (simp add: skipRestOfLine.simps [of lx])
  next
    case False
    show ?thesis
    proof (cases "qchar lx")
      case qc: (Pair eo n)
      show ?thesis
      proof (cases eo)
        case None
        with Pair False qc assms have "skipRestOfLine (popBytes lx n) = (None, lx')"
          by (simp add: skipRestOfLine.simps [of lx])
        then have "length (lx_p lx') \<le> length (lx_p lx) - n"
          using skipRestOfLine_length [of "popBytes lx n" None lx'] by simp
        moreover have "0 < n" using qc None assms(1) qchar_pos [of lx n] by simp
        ultimately show ?thesis using length_diff_less [OF assms(1), of n] by simp
      next
        case (Some er)
        with Pair False qc assms show ?thesis by (simp add: skipRestOfLine.simps [of lx])
      qed
    qed
  qed
qed

lemma skipLineComment_length:
  "skipLineComment lx = (r, ok, lx') \<Longrightarrow> length (lx_p lx') \<le> length (lx_p lx)"
  by (auto simp: skipLineComment_def split: if_splits prod.splits option.splits
      dest: skipRestOfLine_length)

lemma skipLineComment_less:
  "skipLineComment lx = (None, True, lx') \<Longrightarrow> length (lx_p lx') < length (lx_p lx)"
  by (auto simp: skipLineComment_def split: if_splits prod.splits option.splits
      dest: skipRestOfLine_less)

lemma skipLineComment_False:
  "skipLineComment lx = (None, False, lx') \<Longrightarrow> lx' = lx"
  by (auto simp: skipLineComment_def split: if_splits prod.splits option.splits)

lemma skipMultilineComment_loop_length:
  "skipMultilineComment_loop startPos lx = (r, ok, lx') \<Longrightarrow>
   length (lx_p lx') \<le> length (lx_p lx)"
proof (induction startPos lx arbitrary: r ok lx' rule: skipMultilineComment_loop.induct)
  case (1 startPos lx)
  note eq = "1.prems" [unfolded skipMultilineComment_loop.simps [of startPos lx]]
  show ?case
  proof (cases "lx_p lx = [] \<or>
      (hd (lx_p lx) = 0x2A \<and> length (lx_p lx) \<ge> 2 \<and> lx_p lx ! 1 = 0x2F)")
    case True
    with eq show ?thesis by (auto split: if_splits)
  next
    case stop: False
    show ?thesis
    proof (cases "popNewline lx")
      case (Pair t lx1)
      show ?thesis
      proof (cases t)
        case True
        with stop Pair eq have "skipMultilineComment_loop startPos lx1 = (r, ok, lx')"
          by (auto split: if_splits)
        with "1.IH"(1) [OF _ _ Pair [symmetric]] stop True
        have "length (lx_p lx') \<le> length (lx_p lx1)" by auto
        with popNewline_length [of lx lx1] Pair True show ?thesis by simp
      next
        case False
        show ?thesis
        proof (cases "char_val (hd (lx_p lx)) < 0x20")
          case True
          with stop Pair False eq
          have "skipMultilineComment_loop startPos (popBytes lx 1) = (r, ok, lx')"
            by (auto split: if_splits)
          with "1.IH"(2) [OF _ _ Pair [symmetric]] stop False True
          have "length (lx_p lx') \<le> length (lx_p (popBytes lx 1))" by auto
          then show ?thesis by simp
        next
          case ge: False
          show ?thesis
          proof (cases "qchar lx")
            case qc: (Pair eo n)
            show ?thesis
            proof (cases eo)
              case None
              with stop Pair False ge qc eq
              have "skipMultilineComment_loop startPos (popBytes lx n) = (r, ok, lx')"
                by (auto split: if_splits)
              with "1.IH"(3) [OF _ _ Pair [symmetric] _ _ qc [symmetric]] stop False ge None
              have "length (lx_p lx') \<le> length (lx_p (popBytes lx n))" by auto
              then show ?thesis by simp
            next
              case (Some er)
              with stop Pair False ge qc eq show ?thesis by (auto split: if_splits)
            qed
          qed
        qed
      qed
    qed
  qed
qed

lemma skipMultilineComment_length:
  "skipMultilineComment lx = (r, ok, lx') \<Longrightarrow> length (lx_p lx') \<le> length (lx_p lx)"
  by (auto simp: skipMultilineComment_def split: if_splits
      dest!: skipMultilineComment_loop_length)

lemma skipMultilineComment_less:
  "skipMultilineComment lx = (None, True, lx') \<Longrightarrow> length (lx_p lx') < length (lx_p lx)"
  by (auto simp: skipMultilineComment_def split: if_splits
      dest!: skipMultilineComment_loop_length)

lemma skipMultilineComment_loop_False:
  "skipMultilineComment_loop startPos lx = (None, ok, lx') \<Longrightarrow> ok"
proof (induction startPos lx arbitrary: ok lx' rule: skipMultilineComment_loop.induct)
  case (1 startPos lx)
  from "1.prems" show ?case
    by (subst (asm) skipMultilineComment_loop.simps)
       (auto simp: newError_def split: if_splits prod.splits option.splits bool.splits
             dest: "1.IH")
qed

lemma skipMultilineComment_False:
  "skipMultilineComment lx = (None, False, lx') \<Longrightarrow> lx' = lx"
  by (auto simp: skipMultilineComment_def split: if_splits
      dest: skipMultilineComment_loop_False)

function skipSpaces :: "lexer_t \<Rightarrow> error_t option \<times> lexer_t" where
  "skipSpaces lx =
     (if lx_p lx = [] then (None, lx)
      else let lx1 = skipWhitespaces lx in
        (case skipLineComment lx1 of
           (Some er, _, lx2) \<Rightarrow> (Some er, lx2)
         | (None, True, lx2) \<Rightarrow> skipSpaces lx2
         | (None, False, lx2) \<Rightarrow>
             (case skipMultilineComment lx2 of
                (Some er, _, lx3) \<Rightarrow> (Some er, lx3)
              | (None, True, lx3) \<Rightarrow> skipSpaces lx3
              | (None, False, lx3) \<Rightarrow>
                  (case popNewline lx3 of
                     (True, lx4) \<Rightarrow> skipSpaces lx4
                   | (False, lx4) \<Rightarrow> (None, lx4)))))"
  by pat_completeness auto
termination
proof (relation "measure (\<lambda>lx. length (lx_p lx))", goal_cases)
  case 1
  show ?case by simp
next
  case (2 lx lx1 xa y xb lx2)
  then have "skipLineComment lx1 = (None, True, lx2)" by simp
  from skipLineComment_less [OF this] 2 show ?case
    using skipWhitespaces_length [of lx] by simp
next
  case (3 lx lx1 xa y xb lx2 xc yb xd lx3)
  then have "skipLineComment lx1 = (None, False, lx2)"
    and "skipMultilineComment lx2 = (None, True, lx3)" by simp_all
  from skipLineComment_length [OF this(1)] skipMultilineComment_less [OF this(2)] 3
  show ?case using skipWhitespaces_length [of lx] by simp
next
  case (4 lx lx1 xa y xb lx2 xc yb xd lx3 xe lx4)
  then have "skipLineComment lx1 = (None, False, lx2)"
    and "skipMultilineComment lx2 = (None, False, lx3)"
    and "popNewline lx3 = (True, lx4)" by simp_all
  from skipLineComment_length [OF this(1)] skipMultilineComment_length [OF this(2)]
    popNewline_length [OF this(3)] 4
  show ?case using skipWhitespaces_length [of lx] by simp
qed

declare skipSpaces.simps [simp del]

fun matchingMarginLength :: "slice_t \<Rightarrow> slice_t \<Rightarrow> nat" where
  "matchingMarginLength (m # ms) (c # cs) =
     (if c \<noteq> m then 0 else 1 + matchingMarginLength ms cs)"
| "matchingMarginLength _ _ = 0"

definition newlineSpecifier :: "slice_t \<Rightarrow> nat" where
  "newlineSpecifier p =
     (if hd p = 0x5C
      then (if length p > 1 \<and> p ! 1 = 0x6E then 2
            else if length p > 3 \<and> p ! 1 = 0x72 \<and> p ! 2 = 0x5C \<and> p ! 3 = 0x6E then 4
            else 0)
      else 0)"

function getMargin_loop :: "slice_t \<Rightarrow> nat \<Rightarrow> nat" where
  "getMargin_loop p b =
     (if p = [] then b
      else let n = whitespace p in
        if n = 0 then b else getMargin_loop (drop n p) (b + n))"
  by pat_completeness auto
termination
  by (relation "measure (\<lambda>(p, b). length p)") (auto intro!: length_diff_less)

declare getMargin_loop.simps [simp del]

definition getMargin :: "slice_t \<Rightarrow> nat" where
  "getMargin p = getMargin_loop p 0"


text \<open>
  \<^verbatim>\<open>multilineString\<close>: the loop over the lines after the first, the check of the margin
  of the first line of the body in front of it, and the start line.
\<close>

function multilineString_loop ::
  "slice_t \<Rightarrow> pos_t \<Rightarrow> lexer_t \<Rightarrow> error_t option \<times> slice_t option \<times> lexer_t" where
  "multilineString_loop margin startPos lx =
     (if lx_p lx = [] then (Some (newError startPos ErrUnclosedMultiline), None, lx)
      else (case popNewline lx of
              (True, lx') \<Rightarrow>
                (let n = matchingMarginLength margin (lx_p lx') in
                 if n \<noteq> length margin
                 then (Some (newError \<lparr>pos_b = pos_b (lx_pos lx') + n, pos_s = pos_s (lx_pos lx'),
                                        pos_l = pos_l (lx_pos lx')\<rparr> ErrInvalidMarginChar),
                       None, lx')
                 else multilineString_loop margin startPos
                        (if n > 0 then popBytes lx' n else lx'))
            | (False, _) \<Rightarrow>
                if char_val (hd (lx_p lx)) < 0x20
                then multilineString_loop margin startPos (popBytes lx 1)
                else if hd (lx_p lx) = 0x60
                then (let lx' = popBytes lx 1 in
                      if lx_p lx' = [] \<or> hd (lx_p lx') \<noteq> 0x5C
                      then (None, Some (in_slice lx' (pos_s startPos)
                                          (pos_b (lx_pos lx') - pos_s startPos)), lx')
                      else multilineString_loop margin startPos lx')
                else (case qchar lx of
                        (Some er, _) \<Rightarrow> (Some er, None, lx)
                      | (None, n) \<Rightarrow> multilineString_loop margin startPos (popBytes lx n))))"
  by pat_completeness auto
termination
proof (relation "measure (\<lambda>(margin, startPos, lx). length (lx_p lx))", goal_cases)
  case 1
  show ?case by simp
next
  case (2 margin startPos lx x y n)
  then have "popNewline lx = (True, y)" by simp
  from popNewline_length [OF this] show ?case by auto
next
  case (3 margin startPos lx x y)
  then show ?case by (auto intro!: length_diff_less)
next
  case (4 margin startPos lx x y lx')
  then show ?case by (auto intro!: length_diff_less)
next
  case (5 margin startPos lx x y xa n)
  then show ?case by (auto dest: qchar_pos' intro!: length_diff_less)
qed

declare multilineString_loop.simps [simp del]

definition multilineString_body ::
  "slice_t \<Rightarrow> pos_t \<Rightarrow> lexer_t \<Rightarrow> error_t option \<times> slice_t option \<times> lexer_t" where
  "multilineString_body margin startPos lx =
     (if lx_p lx = [] then (Some (newError startPos ErrUnclosedMultiline), None, lx)
      else let n = matchingMarginLength margin (lx_p lx) in
        if n \<noteq> length margin
        then (Some (newError \<lparr>pos_b = pos_b (lx_pos lx) + n, pos_s = pos_s (lx_pos lx),
                               pos_l = pos_l (lx_pos lx)\<rparr> ErrInvalidMarginChar), None, lx)
        else multilineString_loop margin startPos (popBytes lx n))"

definition multilineString :: "lexer_t \<Rightarrow> error_t option \<times> slice_t option \<times> lexer_t" where
  "multilineString lx =
     (if lx_p lx = [] \<or> hd (lx_p lx) \<noteq> 0x60 then (None, None, lx)
      else let margin = in_slice lx (pos_s (lx_pos lx)) (pos_b (lx_pos lx) - pos_s (lx_pos lx));
               b = getMargin margin + pos_s (lx_pos lx) in
        if b \<noteq> pos_b (lx_pos lx)
        then (Some (newError \<lparr>pos_b = b, pos_s = pos_s (lx_pos lx), pos_l = pos_l (lx_pos lx)\<rparr>
                      ErrMarginMustBeWhitespaceOnly), None, lx)
        else let startPos = lx_pos lx; lx1 = skipWhitespaces (popBytes lx 1) in
          if lx_p lx1 = [] then (Some (newError startPos ErrMissingNewlineSpecifier), None, lx1)
          else let n = newlineSpecifier (lx_p lx1) in
            if n = 0 then (Some (newError startPos ErrInvalidNewlineSpecifier), None, lx1)
            else let lx2 = skipWhitespaces (popBytes lx1 n) in
              (case popNewline lx2 of
                 (True, lx3) \<Rightarrow> multilineString_body margin startPos lx3
               | (False, _) \<Rightarrow>
                   (case skipLineComment lx2 of
                      (Some er, _, lx3) \<Rightarrow> (Some er, None, lx3)
                    | (None, False, lx3) \<Rightarrow>
                        (Some (newError startPos ErrInvalidMultilineStart), None, lx3)
                    | (None, True, lx3) \<Rightarrow> multilineString_body margin startPos lx3)))"

text \<open>
  What a call can come to: a result, an abort of the process (a failed \<^verbatim>\<open>assert\<close>, or the
  divide error of the processor), or the end of the fuel that bounds the recursion of the
  expression evaluator and of the parser in this model.
\<close>

datatype abort_t = AssertFailed | DivideError

datatype 'a outcome = Ret 'a | Abort abort_t | OutOfFuel

definition errToken :: "error_t \<Rightarrow> token_t" where
  "errToken er = \<lparr>tk_tag = tagError, tk_pos = fst er, tk_val = ErrVal (snd er)\<rparr>"

text \<open>
  \<^verbatim>\<open>nextToken\<close>. The last line is the \<^verbatim>\<open>assert(false)\<close> of the source; the other
  assertions of the source are not part of the model.
\<close>

definition nextToken :: "engine_t \<Rightarrow> engine_t outcome" where
  "nextToken e =
     (if tk_tag (e_tk e) = tagError then Ret e
      else (case skipSpaces (e_lx e) of
        (Some er, lx1) \<Rightarrow> Ret (e\<lparr>e_lx := lx1, e_tk := errToken er\<rparr>)
      | (None, lx1) \<Rightarrow>
          let tokenPos = lx_pos lx1 in
          if lx_p lx1 = []
          then Ret (e\<lparr>e_lx := lx1,
                       e_tk := \<lparr>tk_tag = tagError, tk_pos = lx_pos lx1,
                                 tk_val = ErrVal ErrEndOfInput\<rparr>\<rparr>)
          else (case delimiter lx1 of (tag, lx2) \<Rightarrow>
            if tag \<noteq> tagUnknown
            then Ret (e\<lparr>e_lx := lx2,
                         e_tk := \<lparr>tk_tag = tag, tk_pos = tokenPos, tk_val = NullVal\<rparr>\<rparr>)
            else (case doubleQuotedString lx2 of
              (Some er, _, lx3) \<Rightarrow> Ret (e\<lparr>e_lx := lx3, e_tk := errToken er\<rparr>)
            | (None, Some sl, lx3) \<Rightarrow>
                Ret (e\<lparr>e_lx := lx3,
                        e_tk := \<lparr>tk_tag = tagDoubleQuotedString, tk_pos = tokenPos,
                                  tk_val = Slice sl\<rparr>\<rparr>)
            | (None, None, lx3) \<Rightarrow>
              (case singleQuotedString lx3 of
                (Some er, _, lx4) \<Rightarrow> Ret (e\<lparr>e_lx := lx4, e_tk := errToken er\<rparr>)
              | (None, Some sl, lx4) \<Rightarrow>
                  Ret (e\<lparr>e_lx := lx4,
                          e_tk := \<lparr>tk_tag = tagSingleQuotedString, tk_pos = tokenPos,
                                    tk_val = Slice sl\<rparr>\<rparr>)
              | (None, None, lx4) \<Rightarrow>
                (case multilineString lx4 of
                  (Some er, _, lx5) \<Rightarrow> Ret (e\<lparr>e_lx := lx5, e_tk := errToken er\<rparr>)
                | (None, Some sl, lx5) \<Rightarrow>
                    Ret (e\<lparr>e_lx := lx5,
                            e_tk := \<lparr>tk_tag = tagMultilineString, tk_pos = tokenPos,
                                      tk_val = Slice sl\<rparr>\<rparr>)
                | (None, None, lx5) \<Rightarrow>
                  (case quotelessString lx5 of
                    (Some er, _, lx6) \<Rightarrow> Ret (e\<lparr>e_lx := lx6, e_tk := errToken er\<rparr>)
                  | (None, Some sl, lx6) \<Rightarrow>
                      Ret (e\<lparr>e_lx := lx6,
                              e_tk := \<lparr>tk_tag = tagQuotelessString, tk_pos = tokenPos,
                                        tk_val = Slice sl\<rparr>\<rparr>)
                  | (None, None, lx6) \<Rightarrow> Abort AssertFailed)))))))"


subsection \<open>Tokenizer of numeric expressions\<close>

text \<open>
  The union \<^verbatim>\<open>val\<close> of \<^verbatim>\<open>numToken_t\<close> holds an \<^verbatim>\<open>int64_t\<close>, a \<^verbatim>\<open>double\<close> or an
  error string; the source reads the member that the tag announces.
\<close>

text \<open>
  A \<^verbatim>\<open>double\<close>: a finite value with its sign bit and its magnitude, an infinity or a NaN
  with its sign bit. \<open>round_to_double\<close> rounds a magnitude to the nearest \<open>m * 2^(ex - 52)\<close>
  with \<open>m \<le> 2^53\<close> and \<open>ex \<ge> -1022\<close>, ties to even, and to infinity when that is
  \<open>2^1024\<close> or more.
\<close>

datatype double = Finite bool rat | Infinity bool | NaN bool

definition round_half_even :: "rat \<Rightarrow> int" where
  "round_half_even x =
     (let f = \<lfloor>x\<rfloor>; r = x - of_int f in
      if r < 1 / 2 then f
      else if r > 1 / 2 then f + 1
      else if even f then f else f + 1)"

function bitlen :: "int \<Rightarrow> int" where
  "bitlen n = (if n \<le> 0 then 0 else 1 + bitlen (n div 2))"
  by pat_completeness auto
termination
  by (relation "measure nat") auto

declare bitlen.simps [simp del]

definition scale2 :: "rat \<Rightarrow> int \<Rightarrow> rat" where
  "scale2 a k = (if k \<ge> 0 then a * 2 ^ nat k else a / 2 ^ nat (- k))"

text \<open>The binary exponent of a positive rational: \<open>2 ^ E \<le> a < 2 ^ (E + 1)\<close>.\<close>

definition binary_exponent :: "rat \<Rightarrow> int" where
  "binary_exponent a =
     (let ex = bitlen (fst (quotient_of a)) - bitlen (snd (quotient_of a))
      in if scale2 a (- ex) \<ge> 1 then ex else ex - 1)"

definition round_to_double :: "bool \<Rightarrow> rat \<Rightarrow> double" where
  "round_to_double sg a =
     (if a = 0 then Finite sg 0
      else let ex = max (binary_exponent a) (- 1022);
               m = round_half_even (scale2 a (52 - ex)) in
        if 1023 < ex \<or> (ex = 1023 \<and> 2 ^ 53 \<le> m) then Infinity sg
        else Finite sg (scale2 (of_int m) (ex - 52)))"

definition d_of_rat :: "rat \<Rightarrow> double" where
  "d_of_rat x = round_to_double (x < 0) \<bar>x\<bar>"

text \<open>The conversion of an integer to \<^verbatim>\<open>double\<close>.\<close>

definition d_of_int :: "int \<Rightarrow> double" where
  "d_of_int i = d_of_rat (of_int i)"

text \<open>
  Negation flips the sign bit. The other operations round the exact result; an operand
  that is a NaN is the result (the left one when both are), and an invalid operation gives
  the default NaN of the processor, whose sign bit is set. A sum that is exactly zero is
  \<open>-0\<close> only when both operands are negative.
\<close>

fun d_neg :: "double \<Rightarrow> double" where
  "d_neg (Finite s a) = Finite (\<not> s) a"
| "d_neg (Infinity s) = Infinity (\<not> s)"
| "d_neg (NaN s) = NaN (\<not> s)"

fun d_add :: "double \<Rightarrow> double \<Rightarrow> double" where
  "d_add (NaN s) y = NaN s"
| "d_add x (NaN t) = NaN t"
| "d_add (Infinity s) (Infinity t) = (if s = t then Infinity s else NaN True)"
| "d_add (Infinity s) (Finite t b) = Infinity s"
| "d_add (Finite s a) (Infinity t) = Infinity t"
| "d_add (Finite s a) (Finite t b) =
     (let v = (if s then - a else a) + (if t then - b else b) in
      if v = 0 then Finite (s \<and> t) 0 else d_of_rat v)"

fun d_sub :: "double \<Rightarrow> double \<Rightarrow> double" where
  "d_sub (NaN s) y = NaN s"
| "d_sub x (NaN t) = NaN t"
| "d_sub x y = d_add x (d_neg y)"

fun d_mul :: "double \<Rightarrow> double \<Rightarrow> double" where
  "d_mul (NaN s) y = NaN s"
| "d_mul x (NaN t) = NaN t"
| "d_mul (Infinity s) (Infinity t) = Infinity (s \<noteq> t)"
| "d_mul (Infinity s) (Finite t b) = (if b = 0 then NaN True else Infinity (s \<noteq> t))"
| "d_mul (Finite s a) (Infinity t) = (if a = 0 then NaN True else Infinity (s \<noteq> t))"
| "d_mul (Finite s a) (Finite t b) = round_to_double (s \<noteq> t) (a * b)"

fun d_div :: "double \<Rightarrow> double \<Rightarrow> double" where
  "d_div (NaN s) y = NaN s"
| "d_div x (NaN t) = NaN t"
| "d_div (Infinity s) (Infinity t) = NaN True"
| "d_div (Infinity s) (Finite t b) = Infinity (s \<noteq> t)"
| "d_div (Finite s a) (Infinity t) = Finite (s \<noteq> t) 0"
| "d_div (Finite s a) (Finite t b) =
     (if b = 0 then (if a = 0 then NaN True else Infinity (s \<noteq> t))
      else round_to_double (s \<noteq> t) (a / b))"

text \<open>The comparisons \<^verbatim>\<open>x == 0\<close> and \<^verbatim>\<open>x < 0\<close>; both are false for a NaN.\<close>

fun d_is_zero :: "double \<Rightarrow> bool" where
  "d_is_zero (Finite s a) = (a = 0)"
| "d_is_zero _ = False"

fun d_is_neg :: "double \<Rightarrow> bool" where
  "d_is_neg (Finite s a) = (s \<and> a \<noteq> 0)"
| "d_is_neg (Infinity s) = s"
| "d_is_neg (NaN s) = False"

datatype numval = IVal "64 word" | FVal double | EVal err

record numToken_t =
  nt_tag :: tokenTag_t
  nt_pos :: nat
  nt_val :: numval

record numEngine_t =
  ne_in :: slice_t
  ne_p :: slice_t
  ne_pos :: nat
  ne_tk :: numToken_t
  ne_erange :: bool

definition val_i :: "numToken_t \<Rightarrow> 64 word" where
  "val_i t = (case nt_val t of IVal i \<Rightarrow> i | _ \<Rightarrow> 0)"

definition val_f :: "numToken_t \<Rightarrow> double" where
  "val_f t = (case nt_val t of FVal f \<Rightarrow> f | _ \<Rightarrow> Finite False 0)"

definition numDone :: "numEngine_t \<Rightarrow> bool" where
  "numDone e = (nt_tag (ne_tk e) = tagError)"

definition numPopBytes :: "numEngine_t \<Rightarrow> nat \<Rightarrow> numEngine_t" where
  "numPopBytes e n = e\<lparr>ne_p := drop n (ne_p e), ne_pos := ne_pos e + n\<rparr>"

text \<open>\<^verbatim>\<open>tkOpTable[256]\<close>: the entries that are not \<^verbatim>\<open>tagUnknown\<close>.\<close>

definition tkOpTable :: "byte \<Rightarrow> tokenTag_t" where
  "tkOpTable c =
     (if c = 0x25 then tagModulo
      else if c = 0x26 then tagAnd
      else if c = 0x28 then tagOpenParen
      else if c = 0x29 then tagCloseParen
      else if c = 0x2A then tagMultiplication
      else if c = 0x2B then tagPlus
      else if c = 0x2D then tagMinus
      else if c = 0x2F then tagDivision
      else if c = 0x5E then tagXor
      else if c = 0x64 then tagDays
      else if c = 0x68 then tagHours
      else if c = 0x6D then tagMinutes
      else if c = 0x73 then tagSeconds
      else if c = 0x77 then tagWeeks
      else if c = 0x7C then tagOr
      else if c = 0x7E then tagInverse
      else tagUnknown)"

definition nextOperator :: "numEngine_t \<Rightarrow> bool \<times> numEngine_t" where
  "nextOperator e =
     (let x = tkOpTable (hd (ne_p e)) in
      if x = tagUnknown then (False, e)
      else (True, numPopBytes (e\<lparr>ne_tk := \<lparr>nt_tag = x, nt_pos = ne_pos e, nt_val = IVal 0\<rparr>\<rparr>) 1))"

definition skipHeaderAndOptionalUnderscore :: "nat \<Rightarrow> slice_t \<Rightarrow> int \<times> slice_t" where
  "skipHeaderAndOptionalUnderscore n v =
     (if n \<ge> length v then (-1, [])
      else let v1 = drop n v in
        if hd v1 = 0x5F
        then (if tl v1 = [] then (-1, []) else (int n + 1, tl v1))
        else (int n, v1))"

text \<open>
  The loop of \<^verbatim>\<open>parseBinDigits\<close>, \<^verbatim>\<open>parseOctDigits\<close>, \<^verbatim>\<open>parseIntDigits\<close> and
  \<^verbatim>\<open>parseHexDigits\<close>, which differ in the test of a digit only: from index \<open>p\<close>, one
  underscore may precede a digit; the result is the index of the first byte that is not
  part of the run, or \<open>-1\<close> when an underscore is not followed by a digit.
\<close>

function parseDigits_loop :: "(byte \<Rightarrow> bool) \<Rightarrow> slice_t \<Rightarrow> nat \<Rightarrow> int" where
  "parseDigits_loop isDigit v p =
     (if p < length v
      then (let p1 = (if v ! p = 0x5F then p + 1 else p) in
            if p1 = length v then -1
            else if \<not> isDigit (v ! p1) then (if v ! (p1 - 1) = 0x5F then -1 else int p1)
            else parseDigits_loop isDigit v (p1 + 1))
      else int (length v))"
  by pat_completeness auto
termination
  by (relation "measure (\<lambda>(isDigit, v, p). length v - p)") auto

declare parseDigits_loop.simps [simp del]

definition isBinDigit :: "byte \<Rightarrow> bool" where
  "isBinDigit v = (v = 0x30 \<or> v = 0x31)"

definition parseBinDigits :: "slice_t \<Rightarrow> int" where
  "parseBinDigits v = (if \<not> isBinDigit (hd v) then 0 else parseDigits_loop isBinDigit v 1)"

definition parseBinLiteral :: "slice_t \<Rightarrow> int" where
  "parseBinLiteral v =
     (if length v < 2 \<or> v ! 0 \<noteq> 0x30 \<or> (v ! 1) AND 0xDF \<noteq> 0x42 then 0
      else (case skipHeaderAndOptionalUnderscore 2 v of (n, v') \<Rightarrow>
        if n \<ge> 0 \<and> parseBinDigits v' > 0 then n + parseBinDigits v' else -1))"

fun decodeBinLiteral_loop :: "slice_t \<Rightarrow> 64 word \<Rightarrow> 64 word" where
  "decodeBinLiteral_loop [] val = (if val AND 0x8000000000000000 \<noteq> 0 then -1 else val)"
| "decodeBinLiteral_loop (c # cs) val =
     (if c = 0x5F then decodeBinLiteral_loop cs val
      else if val AND 0x8000000000000000 \<noteq> 0 then -1
      else decodeBinLiteral_loop cs
             (if c = 0x31 then push_bit 1 val OR 1 else push_bit 1 val))"

definition decodeBinLiteral :: "slice_t \<Rightarrow> 64 word" where
  "decodeBinLiteral v = decodeBinLiteral_loop (drop 2 v) 0"

definition nextBinValue :: "numEngine_t \<Rightarrow> bool \<times> numEngine_t" where
  "nextBinValue e =
     (let n = parseBinLiteral (ne_p e) in
      if n = 0 then (False, e)
      else if n < 0
      then (True, e\<lparr>ne_tk := \<lparr>nt_tag = tagError, nt_pos = ne_pos e,
                              nt_val = EVal ErrInvalidBinaryNumber\<rparr>\<rparr>)
      else let val = decodeBinLiteral (take (nat n) (ne_p e)) in
        if sint val < 0
        then (True, e\<lparr>ne_tk := \<lparr>nt_tag = tagError, nt_pos = ne_pos e,
                                nt_val = EVal ErrNumberOverflow\<rparr>\<rparr>)
        else (True, numPopBytes (e\<lparr>ne_tk := \<lparr>nt_tag = tagIntegerVal, nt_pos = ne_pos e,
                                              nt_val = IVal val\<rparr>\<rparr>) (nat n)))"

definition isOctDigit :: "byte \<Rightarrow> bool" where
  "isOctDigit v = inRange v 0x30 0x37"

definition parseOctDigits :: "slice_t \<Rightarrow> int" where
  "parseOctDigits v =
     (if length v = 0 \<or> \<not> isOctDigit (hd v) then 0 else parseDigits_loop isOctDigit v 1)"

definition parseOctLiteral :: "slice_t \<Rightarrow> int" where
  "parseOctLiteral v =
     (if length v < 1 \<or> v ! 0 \<noteq> 0x30 then 0
      else if length v \<ge> 2 \<and> (v ! 1) AND 0xDF = 0x4F
      then (case skipHeaderAndOptionalUnderscore 2 v of (n, v') \<Rightarrow>
              if n \<ge> 0 \<and> parseOctDigits v' > 0 then n + parseOctDigits v' else -1)
      else if length v < 2 \<or> (v ! 1 \<noteq> 0x5F \<and> \<not> isOctDigit (v ! 1)) then 0
      else (case skipHeaderAndOptionalUnderscore 1 v of (n, v') \<Rightarrow>
              if n \<ge> 0 \<and> parseOctDigits v' > 0 then n + parseOctDigits v' else -1))"

fun decodeOctLiteral_loop :: "slice_t \<Rightarrow> 64 word \<Rightarrow> 64 word" where
  "decodeOctLiteral_loop [] val = val"
| "decodeOctLiteral_loop (c # cs) val =
     (if c = 0x5F then decodeOctLiteral_loop cs val
      else if val AND 0xF000000000000000 \<noteq> 0 then -1
      else decodeOctLiteral_loop cs (push_bit 3 val OR word_of_int (char_val c - 0x30)))"

text \<open>
  \<^verbatim>\<open>decodeOctLiteral\<close> is declared to return \<^verbatim>\<open>int\<close>: the 64-bit value is cut to its low
  32 bits on return, and the caller widens it again with its sign.
\<close>

definition decodeOctLiteral :: "slice_t \<Rightarrow> 32 word" where
  "decodeOctLiteral v =
     ucast (decodeOctLiteral_loop (if (v ! 1) AND 0xDF = 0x4F then drop 2 v else drop 1 v) 0)"

definition nextOctValue :: "numEngine_t \<Rightarrow> bool \<times> numEngine_t" where
  "nextOctValue e =
     (let n = parseOctLiteral (ne_p e) in
      if n = 0 then (False, e)
      else if n < 0
      then (True, e\<lparr>ne_tk := \<lparr>nt_tag = tagError, nt_pos = ne_pos e,
                              nt_val = EVal ErrInvalidOctalNumber\<rparr>\<rparr>)
      else let val = (scast (decodeOctLiteral (take (nat n) (ne_p e))) :: 64 word) in
        if sint val < 0
        then (True, e\<lparr>ne_tk := \<lparr>nt_tag = tagError, nt_pos = ne_pos e,
                                nt_val = EVal ErrNumberOverflow\<rparr>\<rparr>)
        else (True, numPopBytes (e\<lparr>ne_tk := \<lparr>nt_tag = tagIntegerVal, nt_pos = ne_pos e,
                                              nt_val = IVal val\<rparr>\<rparr>) (nat n)))"

definition parseIntDigits :: "slice_t \<Rightarrow> int" where
  "parseIntDigits v =
     (if length v = 0 \<or> \<not> isIntDigit (hd v) then 0 else parseDigits_loop isIntDigit v 1)"

definition parseIntLiteral :: "slice_t \<Rightarrow> int" where
  "parseIntLiteral v =
     (if inRange (v ! 0) 0x31 0x39 then parseIntDigits v
      else if v ! 0 \<noteq> 0x30 then 0
      else if length v > 1 \<and> (v ! 1 = 0x5F \<or> isIntDigit (v ! 1)) then -1
      else 1)"

fun decodeIntLiteral_loop :: "slice_t \<Rightarrow> 64 word \<Rightarrow> 64 word" where
  "decodeIntLiteral_loop [] val = (if val AND 0x8000000000000000 \<noteq> 0 then -1 else val)"
| "decodeIntLiteral_loop (c # cs) val =
     (if c = 0x5F then decodeIntLiteral_loop cs val
      else if val > 0x1999999999999999 then -1
      else decodeIntLiteral_loop cs (val * 10 + word_of_int (char_val c - 0x30)))"

definition decodeIntLiteral :: "slice_t \<Rightarrow> 64 word" where
  "decodeIntLiteral v = decodeIntLiteral_loop v 0"

definition nextIntValue :: "numEngine_t \<Rightarrow> bool \<times> numEngine_t" where
  "nextIntValue e =
     (let n = parseIntLiteral (ne_p e) in
      if n = 0 then (False, e)
      else if n < 0
      then (True, e\<lparr>ne_tk := \<lparr>nt_tag = tagError, nt_pos = ne_pos e,
                              nt_val = EVal ErrInvalidIntegerNumber\<rparr>\<rparr>)
      else let val = decodeIntLiteral (take (nat n) (ne_p e)) in
        if sint val < 0
        then (True, e\<lparr>ne_tk := \<lparr>nt_tag = tagError, nt_pos = ne_pos e,
                                nt_val = EVal ErrNumberOverflow\<rparr>\<rparr>)
        else (True, numPopBytes (e\<lparr>ne_tk := \<lparr>nt_tag = tagIntegerVal, nt_pos = ne_pos e,
                                              nt_val = IVal val\<rparr>\<rparr>) (nat n)))"

definition isHexDigit :: "byte \<Rightarrow> bool" where
  "isHexDigit v = (isIntDigit v \<or> inRange (v AND 0xDF) 0x41 0x46)"

definition parseHexDigits :: "slice_t \<Rightarrow> int" where
  "parseHexDigits v =
     (if length v = 0 \<or> \<not> isHexDigit (hd v) then 0 else parseDigits_loop isHexDigit v 1)"

definition parseHexLiteral :: "slice_t \<Rightarrow> int" where
  "parseHexLiteral v =
     (if length v < 2 \<or> v ! 0 \<noteq> 0x30 \<or> (v ! 1) AND 0xDF \<noteq> 0x58 then 0
      else (case skipHeaderAndOptionalUnderscore 2 v of (n, v') \<Rightarrow>
        if n \<ge> 0 \<and> parseHexDigits v' > 0 then n + parseHexDigits v' else -1))"

fun decodeHexLiteral_loop :: "slice_t \<Rightarrow> 64 word \<Rightarrow> 64 word" where
  "decodeHexLiteral_loop [] val = (if val AND 0x8000000000000000 \<noteq> 0 then -1 else val)"
| "decodeHexLiteral_loop (c # cs) val =
     (if c = 0x5F then decodeHexLiteral_loop cs val
      else if val AND 0xF000000000000000 \<noteq> 0 then -1
      else if inRange c 0x30 0x39
      then decodeHexLiteral_loop cs (push_bit 4 val OR word_of_int (char_val c - 0x30))
      else decodeHexLiteral_loop cs
             (push_bit 4 val OR (word_of_int (uint (c AND 0xDF) - 0x41) + 10)))"

definition decodeHexLiteral :: "slice_t \<Rightarrow> 64 word" where
  "decodeHexLiteral v = decodeHexLiteral_loop (drop 2 v) 0"

definition nextHexValue :: "numEngine_t \<Rightarrow> bool \<times> numEngine_t" where
  "nextHexValue e =
     (let n = parseHexLiteral (ne_p e) in
      if n = 0 then (False, e)
      else if n < 0
      then (True, e\<lparr>ne_tk := \<lparr>nt_tag = tagError, nt_pos = ne_pos e,
                              nt_val = EVal ErrInvalidHexadecimalNumber\<rparr>\<rparr>)
      else let val = decodeHexLiteral (take (nat n) (ne_p e)) in
        if sint val < 0
        then (True, e\<lparr>ne_tk := \<lparr>nt_tag = tagError, nt_pos = ne_pos e,
                                nt_val = EVal ErrNumberOverflow\<rparr>\<rparr>)
        else (True, numPopBytes (e\<lparr>ne_tk := \<lparr>nt_tag = tagIntegerVal, nt_pos = ne_pos e,
                                              nt_val = IVal val\<rparr>\<rparr>) (nat n)))"


definition parseExponent :: "slice_t \<Rightarrow> int" where
  "parseExponent v =
     (if length v = 0 \<or> (hd v) AND 0xDF \<noteq> 0x45 then 0
      else let v1 = tl v in
        if v1 = [] then -1
        else let sgn = (hd v1 = 0x2B \<or> hd v1 = 0x2D);
                 n = (if sgn then 2 else 1);
                 v2 = (if sgn then tl v1 else v1) in
          if v2 = [] then -1
          else if parseIntDigits v2 > 0 then n + parseIntDigits v2
          else -1)"

definition parseDecLiteral :: "slice_t \<Rightarrow> int" where
  "parseDecLiteral v =
     (let p = parseIntDigits v in
      if p < 0 then 0
      else if p = 0
      then (if hd v \<noteq> 0x2E \<or> length v < 2 then 0
            else let v1 = tl v; p1 = parseIntDigits v1 in
              if p1 < 0 then -1
              else if p1 = 0
              then (if length v1 > 0 \<and> (hd v1 = 0x5F \<or> (hd v1) AND 0xDF = 0x45) then -1 else 0)
              else let q = parseExponent (drop (nat p1) v1) in
                if q < 0 then -1 else 1 + p1 + q)
      else let v1 = drop (nat p) v; q = parseExponent v1 in
        if q < 0 then -1
        else if q > 0 then p + q
        else if v1 = [] then 0
        else if hd v1 \<noteq> 0x2E then 0
        else let v2 = tl v1; q2 = parseIntDigits v2;
                 n = (if q2 > 0 then p + 1 + q2 else p + 1);
                 v3 = (if q2 > 0 then drop (nat q2) v2 else v2) in
          if q2 < 0 then -1
          else let p3 = parseExponent v3 in
            if p3 < 0 then -1
            else if int (length v3) > p3 \<and> v3 ! nat p3 = 0x5F then -1
            else n + p3)"

text \<open>
  The C library's \<^verbatim>\<open>strtod\<close> on a text that starts with a digit or a point, which is
  all it is called on here: the longest prefix of the form
  \<^verbatim>\<open>digits[.digits][e[+-]digits]\<close> is read, and \<open>strtod_exact\<close> is the number it denotes.
  The result is that number rounded; the flag tells whether \<^verbatim>\<open>errno\<close> is set to
  \<^verbatim>\<open>ERANGE\<close>, which the library does when the result overflows to infinity, and when it
  is inexact and tiny: rounded to 53 bits with an unbounded exponent, the number is below
  \<open>2^-1022\<close>.
\<close>

definition digits_val :: "slice_t \<Rightarrow> int" where
  "digits_val ds = foldl (\<lambda>acc c. acc * 10 + uint (c - 0x30)) 0 ds"

definition strtod_exponent :: "slice_t \<Rightarrow> int" where
  "strtod_exponent r =
     (if r \<noteq> [] \<and> (hd r) AND 0xDF = 0x45
      then (let r1 = tl r;
                sgn = (r1 \<noteq> [] \<and> (hd r1 = 0x2B \<or> hd r1 = 0x2D));
                ds = takeWhile isIntDigit (if sgn then tl r1 else r1) in
            if ds = [] then 0
            else if sgn \<and> hd r1 = 0x2D then - digits_val ds
            else digits_val ds)
      else 0)"

definition strtod_exact :: "slice_t \<Rightarrow> rat" where
  "strtod_exact str =
     (let ip = takeWhile isIntDigit str;
          r1 = dropWhile isIntDigit str;
          pt = (r1 \<noteq> [] \<and> hd r1 = 0x2E);
          fp = (if pt then takeWhile isIntDigit (tl r1) else []);
          r2 = (if pt then dropWhile isIntDigit (tl r1) else r1);
          ex = strtod_exponent r2;
          mant = (of_int (digits_val (ip @ fp)) :: rat) / 10 ^ length fp in
      if ip = [] \<and> fp = [] then 0
      else if ex \<ge> 0 then mant * 10 ^ nat ex
      else mant / 10 ^ nat (- ex))"

definition is_tiny :: "rat \<Rightarrow> bool" where
  "is_tiny a =
     (if a = 0 then False
      else let ex = binary_exponent a in
        ex < - 1023 \<or> (ex = - 1023 \<and> round_half_even (scale2 a (52 - ex)) < 2 ^ 53))"

definition strtod :: "slice_t \<Rightarrow> double \<times> bool" where
  "strtod str =
     (let a = strtod_exact str; x = round_to_double False a in
      (x, case x of Finite s r \<Rightarrow> (if r = a then False else is_tiny a)
          | Infinity s \<Rightarrow> True | NaN s \<Rightarrow> False))"

text \<open>
  \<^verbatim>\<open>decodeDecLiteral\<close>, with the flag of \<^verbatim>\<open>errno\<close> as argument and as second result:
  \<^verbatim>\<open>strtod\<close> sets it or leaves it as it was.
\<close>

definition decodeDecLiteral :: "bool \<Rightarrow> slice_t \<Rightarrow> double \<times> bool" where
  "decodeDecLiteral erange v =
     (if length v > 255 then (d_of_int (- 1), erange)
      else case strtod v of (x, range_error) \<Rightarrow>
        if d_is_zero x \<and> (erange \<or> range_error) then (d_of_int (- 1), erange \<or> range_error)
        else (x, erange \<or> range_error))"

definition nextDecValue :: "numEngine_t \<Rightarrow> bool \<times> numEngine_t" where
  "nextDecValue e =
     (let n = parseDecLiteral (ne_p e) in
      if n = 0 then (False, e)
      else if n < 0
      then (True, e\<lparr>ne_tk := \<lparr>nt_tag = tagError, nt_pos = ne_pos e,
                              nt_val = EVal ErrInvalidDecimalNumber\<rparr>\<rparr>)
      else case decodeDecLiteral (ne_erange e) (take (nat n) (ne_p e)) of (val, erange) \<Rightarrow>
        if d_is_neg val
        then (True, e\<lparr>ne_tk := \<lparr>nt_tag = tagError, nt_pos = ne_pos e,
                                nt_val = EVal ErrInvalidDecimalNumber\<rparr>,
                       ne_erange := erange\<rparr>)
        else (True, numPopBytes (e\<lparr>ne_tk := \<lparr>nt_tag = tagDecimalVal, nt_pos = ne_pos e,
                                              nt_val = FVal val\<rparr>,
                                     ne_erange := erange\<rparr>) (nat n)))"

subsection \<open>ISO date and time literals\<close>

record ISODateTime_t =
  dt_y :: int
  dt_M :: int
  dt_d :: int
  dt_h :: int
  dt_m :: int
  dt_s :: int
  dt_ho :: int
  dt_mo :: int
  dt_f :: double

text \<open>
  The C library's \<^verbatim>\<open>timegm\<close> on the fields that \<^verbatim>\<open>makeTime\<close> sets, for a month in
  range: the days from 1970-01-01 to the first of the month, and the day, hour, minute and
  second added on top, which is how the library normalises a day or an hour past the end.
\<close>

definition days_from_civil :: "int \<Rightarrow> int \<Rightarrow> int \<Rightarrow> int" where
  "days_from_civil y m d =
     (let y1 = (if m \<le> 2 then y - 1 else y);
          era = y1 div 400;
          yoe = y1 - era * 400;
          doy = (153 * (if m > 2 then m - 3 else m + 9) + 2) div 5 + d - 1;
          doe = yoe * 365 + yoe div 4 - yoe div 100 + doy in
      era * 146097 + doe - 719468)"

definition timegm :: "int \<Rightarrow> int \<Rightarrow> int \<Rightarrow> int \<Rightarrow> int \<Rightarrow> int \<Rightarrow> int" where
  "timegm tm_year tm_mon tm_mday tm_hour tm_min tm_sec =
     ((days_from_civil (tm_year + 1900) (tm_mon + 1) tm_mday * 24 + tm_hour) * 60 + tm_min) * 60
       + tm_sec"

definition makeTime :: "ISODateTime_t \<Rightarrow> double" where
  "makeTime dt =
     (if dt_y dt < 1970 \<or> dt_M dt < 1 \<or> dt_M dt > 12 \<or> dt_d dt < 1 \<or> dt_d dt > 31 \<or>
         dt_h dt < 0 \<or> dt_h dt > 24 \<or> dt_m dt < 0 \<or> dt_m dt > 59 \<or> dt_s dt < 0 \<or>
         dt_s dt > 60 \<or> dt_ho dt < -15 \<or> dt_ho dt > 15 \<or> dt_mo dt < 0 \<or> dt_mo dt > 59 \<or>
         (dt_h dt = 24 \<and> dt_m dt \<noteq> 0 \<and> dt_s dt \<noteq> 0 \<and> \<not> d_is_zero (dt_f dt))
      then d_of_int (- 1)
      else let v = d_add (d_of_int (timegm (dt_y dt - 1900) (dt_M dt - 1) (dt_d dt) (dt_h dt)
                                      (dt_m dt) (dt_s dt))) (dt_f dt) in
        if dt_ho dt < 0
        then d_add (d_sub v (d_of_int (dt_ho dt * 3600))) (d_of_int (dt_mo dt * 60))
        else d_sub (d_sub v (d_of_int (dt_ho dt * 3600))) (d_of_int (dt_mo dt * 60)))"

text \<open>
  \<^verbatim>\<open>sscanf\<close> with a format made of \<^verbatim>\<open>%d\<close> and literal characters: the values converted
  before the first mismatch. \<^verbatim>\<open>%d\<close> skips white space and reads an optional sign and
  decimal digits.
\<close>

datatype fmt_t = FmtD | FmtC byte

definition scan_int :: "slice_t \<Rightarrow> (int \<times> slice_t) option" where
  "scan_int str =
     (let r = dropWhile (\<lambda>c. c = 0x20 \<or> (0x09 \<le> c \<and> c \<le> 0x0D)) str;
          sgn = (r \<noteq> [] \<and> (hd r = 0x2B \<or> hd r = 0x2D));
          r1 = (if sgn then tl r else r);
          ds = takeWhile isIntDigit r1 in
      if ds = [] then None
      else Some (if sgn \<and> hd r = 0x2D then - digits_val ds else digits_val ds,
                 dropWhile isIntDigit r1))"

fun sscanf :: "fmt_t list \<Rightarrow> slice_t \<Rightarrow> int list" where
  "sscanf [] str = []"
| "sscanf (FmtD # fs) str =
     (case scan_int str of None \<Rightarrow> [] | Some (v, r) \<Rightarrow> v # sscanf fs r)"
| "sscanf (FmtC c # fs) str =
     (case str of [] \<Rightarrow> [] | x # r \<Rightarrow> if x = c then sscanf fs r else [])"

text \<open>The byte at an index of a NUL-terminated buffer.\<close>

definition byte_at :: "slice_t \<Rightarrow> nat \<Rightarrow> byte" where
  "byte_at buf i = (if i < length buf then buf ! i else 0)"

definition conv_at :: "int list \<Rightarrow> nat \<Rightarrow> int" where
  "conv_at vals i = (if i < length vals then vals ! i else 0)"

definition decodeISO_offset :: "ISODateTime_t \<Rightarrow> slice_t \<Rightarrow> double" where
  "decodeISO_offset t p =
     (if byte_at p 0 = 0 \<or> byte_at p 0 = 0x5A then makeTime t
      else let vals = sscanf [FmtD, FmtC 0x3A, FmtD] p in
        if length vals \<noteq> 2 then d_of_int (- 1)
        else makeTime (t\<lparr>dt_ho := vals ! 0, dt_mo := vals ! 1\<rparr>))"

definition decodeISODateTimeLiteral :: "slice_t \<Rightarrow> double" where
  "decodeISODateTimeLiteral v =
     (if length v > 255 then d_of_int (- 1)
      else let vals = sscanf [FmtD, FmtC 0x2D, FmtD, FmtC 0x2D, FmtD, FmtC 0x54,
                              FmtD, FmtC 0x3A, FmtD, FmtC 0x3A, FmtD] v;
               k = length vals;
               t = \<lparr>dt_y = conv_at vals 0, dt_M = conv_at vals 1, dt_d = conv_at vals 2,
                    dt_h = conv_at vals 3, dt_m = conv_at vals 4, dt_s = conv_at vals 5,
                    dt_ho = 0, dt_mo = 0, dt_f = Finite False 0\<rparr> in
        if k < 3 \<or> k = 4 then d_of_int (- 1)
        else if k = 3 \<or> k = 5 then makeTime t
        else let p = drop 19 v in
          if byte_at p 0 = 0 \<or> byte_at p 0 = 0x5A then makeTime t
          else if byte_at p 0 = 0x2E
          then (let p1 = drop 1 p; nums = sscanf [FmtD] p1 in
                if length nums \<noteq> 1 then d_of_int (- 1)
                else if isIntDigit (byte_at p1 3)
                then decodeISO_offset
                       (t\<lparr>dt_f := d_div (d_of_int (nums ! 0)) (d_of_int 1000000)\<rparr>) (drop 6 p1)
                else decodeISO_offset
                       (t\<lparr>dt_f := d_div (d_of_int (nums ! 0)) (d_of_int 1000)\<rparr>) (drop 3 p1))
          else decodeISO_offset t p)"

definition nextISODateTimeValue :: "numEngine_t \<Rightarrow> bool \<times> numEngine_t" where
  "nextISODateTimeValue e =
     (let n = parseISODateTimeLiteral (ne_p e) in
      if n = 0 then (False, e)
      else if n < 0
      then (True, e\<lparr>ne_tk := \<lparr>nt_tag = tagError, nt_pos = ne_pos e,
                              nt_val = EVal ErrInvalidISODateTime\<rparr>\<rparr>)
      else let val = decodeISODateTimeLiteral (take (nat n) (ne_p e)) in
        if d_is_neg val
        then (True, e\<lparr>ne_tk := \<lparr>nt_tag = tagError, nt_pos = ne_pos e,
                                nt_val = EVal ErrInvalidISODateTime\<rparr>\<rparr>)
        else (True, numPopBytes (e\<lparr>ne_tk := \<lparr>nt_tag = tagDecimalVal, nt_pos = ne_pos e,
                                              nt_val = FVal val\<rparr>\<rparr>) (nat n)))"

function numSkipWhitespaces :: "numEngine_t \<Rightarrow> numEngine_t" where
  "numSkipWhitespaces e =
     (if ne_p e = [] then e
      else let n = whitespace (ne_p e) in
        if n = 0 then e else numSkipWhitespaces (numPopBytes e n))"
  by pat_completeness auto
termination
  by (relation "measure (\<lambda>e. length (ne_p e))")
     (auto simp: numPopBytes_def intro!: length_diff_less)

declare numSkipWhitespaces.simps [simp del]

text \<open>
  \<^verbatim>\<open>numNextToken\<close>: \<open>numSkipWhitespaces\<close> is its \<^verbatim>\<open>while\<close> loop; the chain of \<^verbatim>\<open>&&\<close>
  tries each recogniser in turn until one returns true.
\<close>

definition numNextToken :: "numEngine_t \<Rightarrow> numEngine_t" where
  "numNextToken e0 =
     (if nt_tag (ne_tk e0) = tagError then e0
      else let e = numSkipWhitespaces e0 in
        if ne_p e = []
        then e\<lparr>ne_tk := \<lparr>nt_tag = tagError, nt_pos = ne_pos e, nt_val = EVal ErrEndOfInput\<rparr>\<rparr>
        else (case nextOperator e of (True, e') \<Rightarrow> e' | (False, e1) \<Rightarrow>
          (case nextISODateTimeValue e1 of (True, e') \<Rightarrow> e' | (False, e2) \<Rightarrow>
          (case nextBinValue e2 of (True, e') \<Rightarrow> e' | (False, e3) \<Rightarrow>
          (case nextHexValue e3 of (True, e') \<Rightarrow> e' | (False, e4) \<Rightarrow>
          (case nextDecValue e4 of (True, e') \<Rightarrow> e' | (False, e5) \<Rightarrow>
          (case nextOctValue e5 of (True, e') \<Rightarrow> e' | (False, e6) \<Rightarrow>
          (case nextIntValue e6 of (True, e') \<Rightarrow> e' | (False, e7) \<Rightarrow>
             e7\<lparr>ne_tk := \<lparr>nt_tag = tagError, nt_pos = ne_pos e7,
                           nt_val = EVal ErrInvalidNumericExpression\<rparr>\<rparr>))))))))"

definition numEngineInit :: "bool \<Rightarrow> slice_t \<Rightarrow> numEngine_t" where
  "numEngineInit erange inp =
     numNextToken \<lparr>ne_in = inp, ne_p = inp, ne_pos = 0,
                   ne_tk = \<lparr>nt_tag = tagUnknown, nt_pos = 0, nt_val = IVal 0\<rparr>,
                   ne_erange = erange\<rparr>"


subsection \<open>Evaluator of numeric expressions\<close>

fun obind :: "'a outcome \<Rightarrow> ('a \<Rightarrow> 'b outcome) \<Rightarrow> 'b outcome" where
  "obind (Ret x) f = f x"
| "obind (Abort a) f = Abort a"
| "obind OutOfFuel f = OutOfFuel"

text \<open>\<^verbatim>\<open>precedenceTable[256]\<close>: the entries that are not 0.\<close>

definition precedenceTable :: "tokenTag_t \<Rightarrow> nat" where
  "precedenceTable tag =
     (if tag = tagPlus \<or> tag = tagMinus \<or> tag = tagXor \<or> tag = tagOr \<or> tag = tagInverse then 1
      else if tag = tagMultiplication \<or> tag = tagDivision \<or> tag = tagAnd \<or> tag = tagModulo
      then 2
      else if tag = tagWeeks \<or> tag = tagDays \<or> tag = tagHours \<or> tag = tagMinutes \<or>
              tag = tagSeconds
      then 4
      else 0)"

definition highestPrecedence :: nat where
  "highestPrecedence = 4"

text \<open>
  The handlers call \<^verbatim>\<open>expression\<close>, which calls them through \<^verbatim>\<open>nudTable\<close> and
  \<^verbatim>\<open>ledTable\<close>. Here each handler takes \<open>expression\<close> as its first argument \<open>ex\<close>.
\<close>

type_synonym expression_t = "numEngine_t \<Rightarrow> nat \<Rightarrow> (numToken_t \<times> numEngine_t) outcome"

definition numError :: "nat \<Rightarrow> err \<Rightarrow> numToken_t" where
  "numError ps er = \<lparr>nt_tag = tagError, nt_pos = ps, nt_val = EVal er\<rparr>"

text \<open>
  The three lines that follow a call of \<^verbatim>\<open>expression\<close> in most handlers: the error
  \<^verbatim>\<open>ErrEndOfInput\<close> of the operand becomes \<^verbatim>\<open>ErrInvalidNumericExpression\<close>.
\<close>

definition endOfInputIsInvalid :: "numToken_t \<Rightarrow> numToken_t" where
  "endOfInputIsInvalid right =
     (if nt_val right = EVal ErrEndOfInput
      then right\<lparr>nt_val := EVal ErrInvalidNumericExpression\<rparr> else right)"

definition toDouble :: "numToken_t \<Rightarrow> numToken_t" where
  "toDouble t =
     (if nt_tag t = tagIntegerVal
      then \<lparr>nt_tag = tagDecimalVal, nt_pos = nt_pos t, nt_val = FVal (d_of_int (sint (val_i t)))\<rparr>
      else t)"

definition normalizeTypes :: "numToken_t \<Rightarrow> numToken_t \<Rightarrow> numToken_t \<times> numToken_t" where
  "normalizeTypes v1 v2 =
     (if nt_tag v1 = tagIntegerVal
      then (if nt_tag v2 = tagDecimalVal then (toDouble v1, v2) else (v1, v2))
      else if nt_tag v2 = tagIntegerVal then (v1, toDouble v2)
      else (v1, v2))"

definition nudValue :: "expression_t \<Rightarrow> numEngine_t \<Rightarrow> numToken_t \<Rightarrow> (numToken_t \<times> numEngine_t) outcome" where
  "nudValue ex e t = Ret (t, e)"

definition nudPlus :: "expression_t \<Rightarrow> numEngine_t \<Rightarrow> numToken_t \<Rightarrow> (numToken_t \<times> numEngine_t) outcome" where
  "nudPlus ex e t =
     obind (ex e (highestPrecedence + 1)) (\<lambda>(right, e').
       if nt_tag right = tagError then Ret (endOfInputIsInvalid right, e')
       else Ret (right, e'))"

definition nudMinus :: "expression_t \<Rightarrow> numEngine_t \<Rightarrow> numToken_t \<Rightarrow> (numToken_t \<times> numEngine_t) outcome" where
  "nudMinus ex e t =
     obind (ex e (highestPrecedence + 1)) (\<lambda>(right, e').
       if nt_tag right = tagError then Ret (endOfInputIsInvalid right, e')
       else if nt_tag right = tagIntegerVal
       then Ret (right\<lparr>nt_val := IVal (- val_i right)\<rparr>, e')
       else Ret (right\<lparr>nt_val := FVal (d_neg (val_f right))\<rparr>, e'))"

definition nudOpenParen :: "expression_t \<Rightarrow> numEngine_t \<Rightarrow> numToken_t \<Rightarrow> (numToken_t \<times> numEngine_t) outcome" where
  "nudOpenParen ex e t =
     obind (ex e (precedenceTable tagOpenParen)) (\<lambda>(right, e').
       if nt_tag right = tagError then Ret (endOfInputIsInvalid right, e')
       else if nt_tag (ne_tk e') \<noteq> tagCloseParen
       then Ret (numError (nt_pos t) ErrUnclosedParenthesis, e')
       else Ret (right, numNextToken e'))"

definition nudCloseParen :: "expression_t \<Rightarrow> numEngine_t \<Rightarrow> numToken_t \<Rightarrow> (numToken_t \<times> numEngine_t) outcome" where
  "nudCloseParen ex e t = Ret (numError (nt_pos t) ErrUnopenedParenthesis, e)"

definition nudInverse :: "expression_t \<Rightarrow> numEngine_t \<Rightarrow> numToken_t \<Rightarrow> (numToken_t \<times> numEngine_t) outcome" where
  "nudInverse ex e t =
     obind (ex e (highestPrecedence + 1)) (\<lambda>(right, e').
       if nt_tag right = tagError then Ret (endOfInputIsInvalid right, e')
       else if nt_tag right = tagDecimalVal
       then Ret (numError (nt_pos t) ErrOperandMustBeInteger, e')
       else Ret (right\<lparr>nt_val := IVal (NOT (val_i right))\<rparr>, e'))"

text \<open>
  The arithmetic handlers share one shape: evaluate the right operand with the operator's
  own precedence, pass an error on, bring both operands to one type, and combine them.
  \<open>binaryOperands\<close> is that common part.
\<close>

definition binaryOperands ::
  "expression_t \<Rightarrow> numEngine_t \<Rightarrow> tokenTag_t \<Rightarrow> numToken_t \<Rightarrow>
   (numToken_t \<Rightarrow> numToken_t \<Rightarrow> numToken_t) \<Rightarrow> (numToken_t \<times> numEngine_t) outcome" where
  "binaryOperands ex e tag left combine =
     obind (ex e (precedenceTable tag)) (\<lambda>(right, e').
       if nt_tag right = tagError then Ret (endOfInputIsInvalid right, e')
       else (case normalizeTypes left right of (l, r) \<Rightarrow> Ret (combine l r, e')))"

definition ledPlus :: "expression_t \<Rightarrow> numEngine_t \<Rightarrow> numToken_t \<Rightarrow> numToken_t \<Rightarrow> (numToken_t \<times> numEngine_t) outcome" where
  "ledPlus ex e t left =
     binaryOperands ex e tagPlus left (\<lambda>l r.
       if nt_tag l = tagIntegerVal then l\<lparr>nt_val := IVal (val_i l + val_i r)\<rparr>
       else l\<lparr>nt_val := FVal (d_add (val_f l) (val_f r))\<rparr>)"

definition ledMinus :: "expression_t \<Rightarrow> numEngine_t \<Rightarrow> numToken_t \<Rightarrow> numToken_t \<Rightarrow> (numToken_t \<times> numEngine_t) outcome" where
  "ledMinus ex e t left =
     binaryOperands ex e tagMinus left (\<lambda>l r.
       if nt_tag l = tagIntegerVal then l\<lparr>nt_val := IVal (val_i l - val_i r)\<rparr>
       else l\<lparr>nt_val := FVal (d_sub (val_f l) (val_f r))\<rparr>)"

definition ledMultiplication :: "expression_t \<Rightarrow> numEngine_t \<Rightarrow> numToken_t \<Rightarrow> numToken_t \<Rightarrow> (numToken_t \<times> numEngine_t) outcome" where
  "ledMultiplication ex e t left =
     binaryOperands ex e tagMultiplication left (\<lambda>l r.
       if nt_tag l = tagIntegerVal then l\<lparr>nt_val := IVal (val_i l * val_i r)\<rparr>
       else l\<lparr>nt_val := FVal (d_mul (val_f l) (val_f r))\<rparr>)"

text \<open>
  \<^verbatim>\<open>int64_t\<close> division and remainder truncate towards zero. When the dividend is
  \<open>-2^63\<close> and the divisor \<open>-1\<close> the quotient is not an \<^verbatim>\<open>int64_t\<close>: the source does not
  test for it, and the division instruction raises a divide error.
\<close>

definition int64_overflows :: "64 word \<Rightarrow> 64 word \<Rightarrow> bool" where
  "int64_overflows a b = (a = 0x8000000000000000 \<and> b = -1)"

definition int64_div :: "64 word \<Rightarrow> 64 word \<Rightarrow> 64 word" where
  "int64_div a b = word_of_int (sint a sdiv sint b)"

definition int64_mod :: "64 word \<Rightarrow> 64 word \<Rightarrow> 64 word" where
  "int64_mod a b = word_of_int (sint a smod sint b)"

definition ledDivision :: "expression_t \<Rightarrow> numEngine_t \<Rightarrow> numToken_t \<Rightarrow> numToken_t \<Rightarrow> (numToken_t \<times> numEngine_t) outcome" where
  "ledDivision ex e t left =
     obind (ex e (precedenceTable tagDivision)) (\<lambda>(right, e').
       if nt_tag right = tagError then Ret (endOfInputIsInvalid right, e')
       else (case normalizeTypes left right of (l, r) \<Rightarrow>
         if nt_tag l = tagIntegerVal
         then (if val_i r = 0 then Ret (numError (nt_pos t) ErrDivisionByZero, e')
               else if int64_overflows (val_i l) (val_i r) then Abort DivideError
               else Ret (l\<lparr>nt_val := IVal (int64_div (val_i l) (val_i r))\<rparr>, e'))
         else (if d_is_zero (val_f r) then Ret (numError (nt_pos t) ErrDivisionByZero, e')
               else Ret (l\<lparr>nt_val := FVal (d_div (val_f l) (val_f r))\<rparr>, e'))))"

definition ledModulo :: "expression_t \<Rightarrow> numEngine_t \<Rightarrow> numToken_t \<Rightarrow> numToken_t \<Rightarrow> (numToken_t \<times> numEngine_t) outcome" where
  "ledModulo ex e t left =
     obind (ex e (precedenceTable tagModulo)) (\<lambda>(right, e').
       if nt_tag right = tagError then Ret (endOfInputIsInvalid right, e')
       else (case normalizeTypes left right of (l, r) \<Rightarrow>
         if nt_tag r = tagDecimalVal then Ret (numError (nt_pos t) ErrOperandMustBeInteger, e')
         else if val_i r = 0 then Ret (numError (nt_pos t) ErrDivisionByZero, e')
         else if int64_overflows (val_i l) (val_i r) then Abort DivideError
         else Ret (l\<lparr>nt_val := IVal (int64_mod (val_i l) (val_i r))\<rparr>, e')))"

text \<open>\<^verbatim>\<open>ledAnd\<close>, \<^verbatim>\<open>ledOr\<close> and \<^verbatim>\<open>ledXor\<close> differ in the operator only.\<close>

definition bitwiseOperands ::
  "expression_t \<Rightarrow> numEngine_t \<Rightarrow> tokenTag_t \<Rightarrow> numToken_t \<Rightarrow> numToken_t \<Rightarrow>
   (64 word \<Rightarrow> 64 word \<Rightarrow> 64 word) \<Rightarrow> (numToken_t \<times> numEngine_t) outcome" where
  "bitwiseOperands ex e tag t left oper =
     obind (ex e (precedenceTable tag)) (\<lambda>(right, e').
       if nt_tag right = tagError then Ret (endOfInputIsInvalid right, e')
       else (case normalizeTypes left right of (l, r) \<Rightarrow>
         if nt_tag r = tagDecimalVal then Ret (numError (nt_pos t) ErrOperandMustBeInteger, e')
         else Ret (l\<lparr>nt_val := IVal (oper (val_i l) (val_i r))\<rparr>, e')))"

definition ledAnd :: "expression_t \<Rightarrow> numEngine_t \<Rightarrow> numToken_t \<Rightarrow> numToken_t \<Rightarrow> (numToken_t \<times> numEngine_t) outcome" where
  "ledAnd ex e t left = bitwiseOperands ex e tagAnd t left (\<lambda>a b. a AND b)"

definition ledOr :: "expression_t \<Rightarrow> numEngine_t \<Rightarrow> numToken_t \<Rightarrow> numToken_t \<Rightarrow> (numToken_t \<times> numEngine_t) outcome" where
  "ledOr ex e t left = bitwiseOperands ex e tagOr t left (\<lambda>a b. a OR b)"

definition ledXor :: "expression_t \<Rightarrow> numEngine_t \<Rightarrow> numToken_t \<Rightarrow> numToken_t \<Rightarrow> (numToken_t \<times> numEngine_t) outcome" where
  "ledXor ex e t left = bitwiseOperands ex e tagXor t left (\<lambda>a b. a XOR b)"

definition ledDuration ::
  "expression_t \<Rightarrow> numEngine_t \<Rightarrow> numToken_t \<Rightarrow> numToken_t \<Rightarrow> double \<Rightarrow> nat \<Rightarrow>
   (numToken_t \<times> numEngine_t) outcome" where
  "ledDuration ex e t left0 duration rbp =
     (let left = toDouble left0 in
      if nt_tag (ne_tk e) = tagCloseParen
      then Ret (left\<lparr>nt_val := FVal (d_mul (val_f left) duration)\<rparr>, e)
      else obind (ex e rbp) (\<lambda>(right, e').
        if nt_tag right = tagError
        then (if nt_val right = EVal ErrEndOfInput
              then Ret (left\<lparr>nt_val := FVal (d_mul (val_f left) duration)\<rparr>, e')
              else Ret (right, e'))
        else Ret (left\<lparr>nt_val := FVal (d_add (d_mul (val_f left) duration) (val_f (toDouble right)))\<rparr>, e')))"

definition ledWeeks :: "expression_t \<Rightarrow> numEngine_t \<Rightarrow> numToken_t \<Rightarrow> numToken_t \<Rightarrow> (numToken_t \<times> numEngine_t) outcome" where
  "ledWeeks ex e t left = ledDuration ex e t left (d_of_int (3600 * 24 * 7)) (precedenceTable tagWeeks - 1)"

definition ledDays :: "expression_t \<Rightarrow> numEngine_t \<Rightarrow> numToken_t \<Rightarrow> numToken_t \<Rightarrow> (numToken_t \<times> numEngine_t) outcome" where
  "ledDays ex e t left = ledDuration ex e t left (d_of_int (3600 * 24)) (precedenceTable tagDays - 1)"

definition ledHours :: "expression_t \<Rightarrow> numEngine_t \<Rightarrow> numToken_t \<Rightarrow> numToken_t \<Rightarrow> (numToken_t \<times> numEngine_t) outcome" where
  "ledHours ex e t left = ledDuration ex e t left (d_of_int 3600) (precedenceTable tagHours - 1)"

definition ledMinutes :: "expression_t \<Rightarrow> numEngine_t \<Rightarrow> numToken_t \<Rightarrow> numToken_t \<Rightarrow> (numToken_t \<times> numEngine_t) outcome" where
  "ledMinutes ex e t left = ledDuration ex e t left (d_of_int 60) (precedenceTable tagMinutes - 1)"

definition ledSeconds :: "expression_t \<Rightarrow> numEngine_t \<Rightarrow> numToken_t \<Rightarrow> numToken_t \<Rightarrow> (numToken_t \<times> numEngine_t) outcome" where
  "ledSeconds ex e t left = ledDuration ex e t left (d_of_int 1) (precedenceTable tagSeconds - 1)"

text \<open>\<^verbatim>\<open>nud\<close> and \<^verbatim>\<open>led\<close> with \<^verbatim>\<open>nudTable\<close> and \<^verbatim>\<open>ledTable\<close>; a NULL entry is an error.\<close>

definition nud :: "expression_t \<Rightarrow> numEngine_t \<Rightarrow> numToken_t \<Rightarrow> (numToken_t \<times> numEngine_t) outcome" where
  "nud ex e t =
     (if nt_tag t = tagIntegerVal \<or> nt_tag t = tagDecimalVal then nudValue ex e t
      else if nt_tag t = tagPlus then nudPlus ex e t
      else if nt_tag t = tagMinus then nudMinus ex e t
      else if nt_tag t = tagInverse then nudInverse ex e t
      else if nt_tag t = tagOpenParen then nudOpenParen ex e t
      else if nt_tag t = tagCloseParen then nudCloseParen ex e t
      else Ret (numError (nt_pos t) ErrInvalidNumericExpression, e))"

definition led :: "expression_t \<Rightarrow> numEngine_t \<Rightarrow> numToken_t \<Rightarrow> numToken_t \<Rightarrow> (numToken_t \<times> numEngine_t) outcome" where
  "led ex e t left =
     (if nt_tag t = tagPlus then ledPlus ex e t left
      else if nt_tag t = tagMinus then ledMinus ex e t left
      else if nt_tag t = tagMultiplication then ledMultiplication ex e t left
      else if nt_tag t = tagDivision then ledDivision ex e t left
      else if nt_tag t = tagXor then ledXor ex e t left
      else if nt_tag t = tagAnd then ledAnd ex e t left
      else if nt_tag t = tagOr then ledOr ex e t left
      else if nt_tag t = tagModulo then ledModulo ex e t left
      else if nt_tag t = tagWeeks then ledWeeks ex e t left
      else if nt_tag t = tagDays then ledDays ex e t left
      else if nt_tag t = tagHours then ledHours ex e t left
      else if nt_tag t = tagMinutes then ledMinutes ex e t left
      else if nt_tag t = tagSeconds then ledSeconds ex e t left
      else Ret (numError (nt_pos t) ErrInvalidNumericExpression, e))"

text \<open>
  \<^verbatim>\<open>expression\<close> and its \<^verbatim>\<open>while\<close> loop. The first argument is the fuel: each call and
  each turn of the loop takes one unit.
\<close>

fun expression :: "nat \<Rightarrow> numEngine_t \<Rightarrow> nat \<Rightarrow> (numToken_t \<times> numEngine_t) outcome"
  and expression_loop ::
    "nat \<Rightarrow> numEngine_t \<Rightarrow> nat \<Rightarrow> numToken_t \<Rightarrow> (numToken_t \<times> numEngine_t) outcome" where
  "expression 0 e rbp = OutOfFuel"
| "expression (Suc n) e rbp =
     (if numDone e then Ret (ne_tk e, e)
      else obind (nud (expression n) (numNextToken e) (ne_tk e))
             (\<lambda>(left, e'). expression_loop n e' rbp left))"
| "expression_loop 0 e rbp left = OutOfFuel"
| "expression_loop (Suc n) e rbp left =
     (if nt_tag left \<noteq> tagError \<and> rbp < precedenceTable (nt_tag (ne_tk e))
      then obind (led (expression n) (numNextToken e) (ne_tk e) left)
             (\<lambda>(left', e'). expression_loop n e' rbp left')
      else Ret (left, e))"

text \<open>
  \<^verbatim>\<open>evalNumberExpression\<close>. Every call of \<open>expression\<close> and every turn of its loop is
  preceded by a \<open>numNextToken\<close> that takes at least one byte or ends the evaluation, so
  the length of the input bounds the fuel that is needed. The flag of \<^verbatim>\<open>errno\<close> goes in
  and comes out.
\<close>

definition evalNumberExpression :: "bool \<Rightarrow> slice_t \<Rightarrow> (numToken_t \<times> bool) outcome" where
  "evalNumberExpression erange inp =
     obind (expression (length inp + 2) (numEngineInit erange inp) 0) (\<lambda>(t, e).
       if nt_tag t = tagError \<or> nt_tag t = tagDecimalVal then Ret (t, ne_erange e)
       else Ret (\<lparr>nt_tag = tagDecimalVal, nt_pos = nt_pos t,
                  nt_val = FVal (d_of_int (sint (val_i t)))\<rparr>, ne_erange e))"

definition isNumberExpr :: "slice_t \<Rightarrow> bool" where
  "isNumberExpr p =
     (let r = dropWhile (\<lambda>c. c = 0x2B \<or> c = 0x2D \<or> c = 0x20 \<or> c = 0x09 \<or> c = 0x28) p in
      r \<noteq> [] \<and> (isIntDigit (hd r) \<or> (hd r = 0x2E \<and> 1 < length r \<and> isIntDigit (r ! 1))))"


subsection \<open>Output\<close>

text \<open>\<^verbatim>\<open>done\<close> of the source.\<close>

definition isDone :: "engine_t \<Rightarrow> bool" where
  "isDone e = (tk_tag (e_tk e) = tagError)"

definition setErrorAndPos :: "engine_t \<Rightarrow> err \<Rightarrow> pos_t \<Rightarrow> engine_t" where
  "setErrorAndPos e er ps = e\<lparr>e_tk := \<lparr>tk_tag = tagError, tk_pos = ps, tk_val = ErrVal er\<rparr>\<rparr>"

definition setError :: "engine_t \<Rightarrow> err \<Rightarrow> engine_t" where
  "setError e er = setErrorAndPos e er (lx_pos (e_lx e))"

text \<open>The test \<^verbatim>\<open>e->tk.val.p == ErrEndOfInput\<close>.\<close>

definition isEndOfInput :: "engine_t \<Rightarrow> bool" where
  "isEndOfInput e = (tk_val (e_tk e) = ErrVal ErrEndOfInput)"

definition outputByte :: "engine_t \<Rightarrow> byte \<Rightarrow> engine_t" where
  "outputByte e c = e\<lparr>e_out := e_out e @ [c]\<rparr>"

definition outputString :: "engine_t \<Rightarrow> byte list \<Rightarrow> engine_t" where
  "outputString e str = e\<lparr>e_out := e_out e @ str\<rparr>"

definition tk_slice :: "engine_t \<Rightarrow> slice_t" where
  "tk_slice e = (case tk_val (e_tk e) of Slice sl \<Rightarrow> sl | _ \<Rightarrow> [])"

definition tk_pos_plus :: "engine_t \<Rightarrow> nat \<Rightarrow> pos_t" where
  "tk_pos_plus e i = \<lparr>pos_b = pos_b (tk_pos (e_tk e)) + i, pos_s = pos_s (tk_pos (e_tk e)),
                       pos_l = pos_l (tk_pos (e_tk e))\<rparr>"

function outputDoubleQuotedString_loop :: "slice_t \<Rightarrow> nat \<Rightarrow> engine_t \<Rightarrow> engine_t" where
  "outputDoubleQuotedString_loop str i e =
     (if i < length str - 1
      then (if str ! i = 0x2F
            then outputDoubleQuotedString_loop str (i + 1)
                   (outputByte (if str ! (i - 1) = 0x3C then outputByte e 0x5C else e) (str ! i))
            else if str ! i = 0x09
            then outputDoubleQuotedString_loop str (i + 1) (outputByte (outputByte e 0x5C) 0x74)
            else if str ! i = 0x5C
            then (let c = str ! (i + 1) in
                  if c \<noteq> 0x74 \<and> c \<noteq> 0x6E \<and> c \<noteq> 0x72 \<and> c \<noteq> 0x66 \<and> c \<noteq> 0x62 \<and> c \<noteq> 0x2F \<and>
                     c \<noteq> 0x5C \<and> c \<noteq> 0x22 \<and>
                     \<not> (c = 0x75 \<and> length str \<ge> i + 6 \<and> isHexDigit (str ! (i + 2)) \<and>
                        isHexDigit (str ! (i + 3)) \<and> isHexDigit (str ! (i + 5)) \<and>
                        isHexDigit (str ! (i + 5)))
                  then setErrorAndPos e ErrInvalidEscapeSequence (tk_pos_plus e i)
                  else outputDoubleQuotedString_loop str (i + 1) (outputByte e (str ! i)))
            else outputDoubleQuotedString_loop str (i + 1) (outputByte e (str ! i)))
      else outputByte e 0x22)"
  by pat_completeness auto
termination
  by (relation "measure (\<lambda>(str, i, e). length str - i)") auto

definition outputDoubleQuotedString :: "engine_t \<Rightarrow> engine_t" where
  "outputDoubleQuotedString e = outputDoubleQuotedString_loop (tk_slice e) 1 (outputByte e 0x22)"

function outputSingleQuotedString_loop :: "slice_t \<Rightarrow> nat \<Rightarrow> engine_t \<Rightarrow> engine_t" where
  "outputSingleQuotedString_loop str i e =
     (if i < length str - 1
      then (if str ! i = 0x2F
            then outputSingleQuotedString_loop str (i + 1)
                   (outputByte (if str ! (i - 1) = 0x3C then outputByte e 0x5C else e) (str ! i))
            else if str ! i = 0x09
            then outputSingleQuotedString_loop str (i + 1) (outputByte (outputByte e 0x5C) 0x74)
            else if str ! i = 0x5C
            then (let c = str ! (i + 1) in
                  if c \<noteq> 0x74 \<and> c \<noteq> 0x6E \<and> c \<noteq> 0x72 \<and> c \<noteq> 0x66 \<and> c \<noteq> 0x62 \<and> c \<noteq> 0x2F \<and>
                     c \<noteq> 0x5C \<and> c \<noteq> 0x27 \<and>
                     \<not> (c = 0x75 \<and> length str \<ge> i + 6 \<and> isHexDigit (str ! (i + 2)) \<and>
                        isHexDigit (str ! (i + 3)) \<and> isHexDigit (str ! (i + 5)) \<and>
                        isHexDigit (str ! (i + 5)))
                  then setErrorAndPos e ErrInvalidEscapeSequence (tk_pos_plus e i)
                  else if c = 0x27 then outputSingleQuotedString_loop str (i + 1) e
                  else outputSingleQuotedString_loop str (i + 1) (outputByte e (str ! i)))
            else if str ! i = 0x22
            then outputSingleQuotedString_loop str (i + 1) (outputByte (outputByte e 0x5C) (str ! i))
            else outputSingleQuotedString_loop str (i + 1) (outputByte e (str ! i)))
      else outputByte e 0x22)"
  by pat_completeness auto
termination
  by (relation "measure (\<lambda>(str, i, e). length str - i)") auto

definition outputSingleQuotedString :: "engine_t \<Rightarrow> engine_t" where
  "outputSingleQuotedString e = outputSingleQuotedString_loop (tk_slice e) 1 (outputByte e 0x22)"

function outputQuotelessString_loop :: "slice_t \<Rightarrow> nat \<Rightarrow> engine_t \<Rightarrow> engine_t" where
  "outputQuotelessString_loop str i e =
     (if i < length str
      then (if str ! i = 0x22
            then outputQuotelessString_loop str (i + 1) (outputByte (outputByte e 0x5C) (str ! i))
            else if str ! i = 0x09
            then outputQuotelessString_loop str (i + 1) (outputByte (outputByte e 0x5C) 0x74)
            else if str ! i = 0x2F
            then outputQuotelessString_loop str (i + 1)
                   (outputByte (if i > 0 \<and> str ! (i - 1) = 0x3C then outputByte e 0x5C else e)
                      (str ! i))
            else if str ! i = 0x5C
            then outputQuotelessString_loop str (i + 1) (outputByte (outputByte e 0x5C) (str ! i))
            else outputQuotelessString_loop str (i + 1) (outputByte e (str ! i)))
      else outputByte e 0x22)"
  by pat_completeness auto
termination
  by (relation "measure (\<lambda>(str, i, e). length str - i)") auto

definition outputQuotelessString :: "engine_t \<Rightarrow> engine_t" where
  "outputQuotelessString e = outputQuotelessString_loop (tk_slice e) 0 (outputByte e 0x22)"

declare outputDoubleQuotedString_loop.simps [simp del]
  outputSingleQuotedString_loop.simps [simp del] outputQuotelessString_loop.simps [simp del]

text \<open>What \<^verbatim>\<open>printf\<close> prints for \<^verbatim>\<open>%X\<close> and for \<^verbatim>\<open>%d\<close> of a number that is not negative.\<close>

definition hex_digit :: "int \<Rightarrow> byte" where
  "hex_digit d = (if d < 10 then 0x30 + of_int d else 0x41 + of_int (d - 10))"

function hex_upper :: "int \<Rightarrow> byte list" where
  "hex_upper n = (if n < 16 then [hex_digit n] else hex_upper (n div 16) @ [hex_digit (n mod 16)])"
  by pat_completeness auto
termination
  by (relation "measure nat") auto

function dec :: "int \<Rightarrow> byte list" where
  "dec n = (if n < 10 then [0x30 + of_int n] else dec (n div 10) @ [0x30 + of_int (n mod 10)])"
  by pat_completeness auto
termination
  by (relation "measure nat") auto

declare hex_upper.simps [simp del] dec.simps [simp del]

text \<open>
  The body of a multiline string, after the start line and the margin of its first line.
  \<open>nl\<close> is the newline specifier, \<open>mlen\<close> the length of the margin.
\<close>

function outputMultilineString_loop :: "byte list \<Rightarrow> nat \<Rightarrow> slice_t \<Rightarrow> engine_t \<Rightarrow> engine_t" where
  "outputMultilineString_loop nl mlen str e =
     (if str = [] then e
      else if newline str \<noteq> 0
      then outputMultilineString_loop nl mlen (drop (newline str + mlen) str) (outputString e nl)
      else if char_val (hd str) < 0x20
      then outputMultilineString_loop nl mlen (tl str)
             (outputString e
                (if hd str = 0x08 then [0x5C, 0x62]
                 else if hd str = 0x09 then [0x5C, 0x74]
                 else if hd str = 0x0D then [0x5C, 0x72]
                 else if hd str = 0x0C then [0x5C, 0x66]
                 else [0x5C, 0x75, 0x30, 0x30] @
                      hex_upper (if char_val (hd str) < 0 then char_val (hd str) + 2 ^ 32
                                 else char_val (hd str))))
      else if hd str = 0x3C
      then outputMultilineString_loop nl mlen (tl str)
             (if length str > 1 \<and> str ! 1 = 0x2F then outputByte (outputByte e 0x3C) 0x5C
              else outputByte e 0x3C)
      else if hd str = 0x22
      then outputMultilineString_loop nl mlen (tl str) (outputByte (outputByte e 0x5C) 0x22)
      else if hd str = 0x60 \<and> length str > 1 \<and> str ! 1 = 0x5C
      then outputMultilineString_loop nl mlen (drop 2 str) (outputByte e 0x60)
      else if hd str = 0x5C
      then outputMultilineString_loop nl mlen (tl str) (outputByte (outputByte e 0x5C) 0x5C)
      else outputMultilineString_loop nl mlen (tl str) (outputByte e (hd str)))"
  by pat_completeness auto
termination
  by (relation "measure (\<lambda>(nl, mlen, str, e). length str)") (auto intro!: length_diff_less)

declare outputMultilineString_loop.simps [simp del]

function dropWhitespaces :: "slice_t \<Rightarrow> slice_t" where
  "dropWhitespaces str =
     (if whitespace str > 0 then dropWhitespaces (drop (whitespace str) str) else str)"
  by pat_completeness auto
termination
  by (relation "measure length") (auto dest: whitespace_pos intro!: length_diff_less)

declare dropWhitespaces.simps [simp del]

text \<open>
  \<^verbatim>\<open>outputMultilineString\<close>. The tokenizer has checked that the slice starts with the
  margin and a back-tick, that the newline specifier follows, and that the start line ends
  with a line feed, which the three searches of the source rely on.
\<close>

definition outputMultilineString :: "engine_t \<Rightarrow> engine_t" where
  "outputMultilineString e =
     (let str = tk_slice e;
          mlen = length (takeWhile (\<lambda>c. c \<noteq> 0x60) str);
          str1 = drop 1 (dropWhitespaces (drop (mlen + 1) str));
          nl = (if hd str1 = 0x6E then [0x5C, 0x6E] else [0x5C, 0x72, 0x5C, 0x6E]);
          str2 = (if hd str1 = 0x6E then drop 1 str1 else drop 3 str1);
          str3 = dropWhile (\<lambda>c. c \<noteq> 0x0A) str2;
          body = butlast (drop (1 + mlen) str3) in
      outputByte (outputMultilineString_loop nl mlen body (outputByte e 0x22)) 0x22)"

text \<open>
  \<^verbatim>\<open>sprintf\<close> with \<^verbatim>\<open>%.16g\<close>: the value is rounded to 16 significant decimal digits
  (to even on a tie); with the decimal exponent \<open>X\<close> of the rounded value, the style is
  scientific when \<open>X < -4\<close> or \<open>X \<ge> 16\<close> and fixed otherwise, and trailing zeros of the
  fraction are removed. A set sign bit prints as \<^verbatim>\<open>-\<close>, also before zero, \<^verbatim>\<open>inf\<close> and
  \<^verbatim>\<open>nan\<close>.
\<close>

definition scale10 :: "rat \<Rightarrow> int \<Rightarrow> rat" where
  "scale10 a k = (if k \<ge> 0 then a * 10 ^ nat k else a / 10 ^ nat (- k))"

text \<open>The decimal exponent of a positive rational: \<open>10 ^ X \<le> a < 10 ^ (X + 1)\<close>.\<close>

definition decimal_exponent :: "rat \<Rightarrow> int" where
  "decimal_exponent a =
     (let ex = int (length (dec (fst (quotient_of a)))) - int (length (dec (snd (quotient_of a))))
      in if scale10 a (- ex) \<ge> 1 then ex else ex - 1)"

definition strip_zeros :: "byte list \<Rightarrow> byte list" where
  "strip_zeros ds = rev (dropWhile (\<lambda>c. c = 0x30) (rev ds))"

definition with_fraction :: "byte list \<Rightarrow> byte list \<Rightarrow> byte list" where
  "with_fraction ip fp = (if strip_zeros fp = [] then ip else ip @ [0x2E] @ strip_zeros fp)"

definition fmt_g16_magnitude :: "rat \<Rightarrow> byte list" where
  "fmt_g16_magnitude a =
     (if a = 0 then [0x30]
      else let X0 = decimal_exponent a;
               m0 = round_half_even (scale10 a (15 - X0));
               X = (if m0 \<ge> 10 ^ 16 then X0 + 1 else X0);
               m = (if m0 \<ge> 10 ^ 16 then 10 ^ 15 else m0);
               ds = dec m in
        if X < -4 \<or> X \<ge> 16
        then with_fraction (take 1 ds) (drop 1 ds) @ [0x65] @
             (if X < 0 then [0x2D] else [0x2B]) @
             (if \<bar>X\<bar> < 10 then [0x30] else []) @ dec \<bar>X\<bar>
        else if X \<ge> 0
        then with_fraction (take (nat X + 1) ds) (drop (nat X + 1) ds)
        else with_fraction [0x30] (replicate (nat (- X - 1)) 0x30 @ ds))"

fun fmt_g16 :: "double \<Rightarrow> byte list" where
  "fmt_g16 (Finite s a) = (if s then [0x2D] else []) @ fmt_g16_magnitude a"
| "fmt_g16 (Infinity s) = (if s then [0x2D] else []) @ bytes ''inf''"
| "fmt_g16 (NaN s) = (if s then [0x2D] else []) @ bytes ''nan''"


subsection \<open>Parser\<close>

text \<open>
  \<^verbatim>\<open>isLiteralValue\<close>: a \<^verbatim>\<open>switch\<close> on the length whose cases fall through, so the tests
  for a shorter word are also made on a longer slice.
\<close>

definition isLiteralValue :: "slice_t \<Rightarrow> byte list option" where
  "isLiteralValue p =
     (let n = length p in
      if n = 5 \<and> (p ! 0 = 0x66 \<or> p ! 0 = 0x46) \<and>
         ((p ! 1 = 0x61 \<and> p ! 2 = 0x6C \<and> p ! 3 = 0x73 \<and> p ! 4 = 0x65) \<or>
          (p ! 1 = 0x41 \<and> p ! 2 = 0x4C \<and> p ! 3 = 0x53 \<and> p ! 4 = 0x45))
      then Some (bytes ''false'')
      else if (n = 5 \<or> n = 4) \<and> (p ! 0 = 0x6E \<or> p ! 0 = 0x4E) \<and>
         ((p ! 1 = 0x75 \<and> p ! 2 = 0x6C \<and> p ! 3 = 0x6C) \<or>
          (p ! 1 = 0x55 \<and> p ! 2 = 0x4C \<and> p ! 3 = 0x4C))
      then Some (bytes ''null'')
      else if (n = 5 \<or> n = 4) \<and> (p ! 0 = 0x74 \<or> p ! 0 = 0x54) \<and>
         ((p ! 1 = 0x72 \<and> p ! 2 = 0x75 \<and> p ! 3 = 0x65) \<or>
          (p ! 1 = 0x52 \<and> p ! 2 = 0x55 \<and> p ! 3 = 0x45))
      then Some (bytes ''true'')
      else if (n = 5 \<or> n = 4 \<or> n = 3) \<and> (p ! 0 = 0x79 \<or> p ! 0 = 0x59) \<and>
         ((p ! 1 = 0x65 \<and> p ! 2 = 0x73) \<or> (p ! 1 = 0x45 \<and> p ! 2 = 0x53))
      then Some (bytes ''true'')
      else if (n = 5 \<or> n = 4 \<or> n = 3) \<and> (p ! 0 = 0x6F \<or> p ! 0 = 0x4F) \<and>
         ((p ! 1 = 0x66 \<and> p ! 2 = 0x66) \<or> (p ! 1 = 0x46 \<and> p ! 2 = 0x46))
      then Some (bytes ''false'')
      else if (n = 5 \<or> n = 4 \<or> n = 3 \<or> n = 2) \<and> (p ! 0 = 0x6F \<or> p ! 0 = 0x4F) \<and>
         (p ! 1 = 0x6E \<or> p ! 1 = 0x4E)
      then Some (bytes ''true'')
      else if (n = 5 \<or> n = 4 \<or> n = 3 \<or> n = 2) \<and> (p ! 0 = 0x6E \<or> p ! 0 = 0x4E) \<and>
         (p ! 1 = 0x6F \<or> p ! 1 = 0x4F)
      then Some (bytes ''false'')
      else None)"

text \<open>The end of \<^verbatim>\<open>value\<close>: \<^verbatim>\<open>nextToken(e); return done(e);\<close>\<close>

definition value_end :: "engine_t \<Rightarrow> (bool \<times> engine_t) outcome" where
  "value_end e = obind (nextToken e) (\<lambda>e'. Ret (isDone e', e'))"

text \<open>The case \<^verbatim>\<open>tagQuotelessString\<close> of \<^verbatim>\<open>value\<close>.\<close>

definition value_quoteless :: "engine_t \<Rightarrow> (bool \<times> engine_t) outcome" where
  "value_quoteless e =
     (let val = tk_slice e in
      case isLiteralValue val of
        Some str \<Rightarrow> value_end (outputString e str)
      | None \<Rightarrow>
          if isNumberExpr val
          then obind (evalNumberExpression (e_erange e) val) (\<lambda>(t, erange).
                 if nt_tag t = tagError
                 then Ret (True, setErrorAndPos (e\<lparr>e_erange := erange\<rparr>)
                                   (case nt_val t of EVal er \<Rightarrow> er | _ \<Rightarrow> ErrSyntaxError)
                                   (tk_pos_plus e (nt_pos t)))
                 else value_end (outputString (e\<lparr>e_erange := erange\<rparr>) (fmt_g16 (val_f t))))
          else value_end (outputQuotelessString e))"

text \<open>
  The part of the loop of \<^verbatim>\<open>values\<close> and of \<^verbatim>\<open>members\<close> that deals with the comma
  between two entries; the flag returned is true when the loop is left with \<^verbatim>\<open>break\<close>.
\<close>

definition entry_separator :: "err \<Rightarrow> bool \<Rightarrow> engine_t \<Rightarrow> (bool \<times> engine_t) outcome" where
  "entry_separator er notFirst e =
     (if notFirst
      then (let e1 = outputByte e 0x2C in
            if tk_tag (e_tk e1) = tagComma
            then obind (nextToken e1) (\<lambda>e2.
                   if isDone e2 then Ret (True, if isEndOfInput e2 then setError e2 er else e2)
                   else if tk_tag (e_tk e2) = tagCloseBrace \<or> tk_tag (e_tk e2) = tagCloseSquare
                   then Ret (True, setError e2 er)
                   else Ret (False, e2))
            else Ret (False, e1))
      else Ret (False, e))"

text \<open>
  \<^verbatim>\<open>value\<close>, \<^verbatim>\<open>values\<close>, \<^verbatim>\<open>member\<close> and \<^verbatim>\<open>members\<close>, with the loops of \<^verbatim>\<open>values\<close> and
  \<^verbatim>\<open>members\<close> as functions of their own. The first argument is the fuel: each call and
  each turn of a loop takes one unit.
\<close>

fun "value" :: "nat \<Rightarrow> engine_t \<Rightarrow> (bool \<times> engine_t) outcome"
  and "values" :: "nat \<Rightarrow> engine_t \<Rightarrow> (bool \<times> engine_t) outcome"
  and values_loop :: "nat \<Rightarrow> bool \<Rightarrow> engine_t \<Rightarrow> engine_t outcome"
  and member :: "nat \<Rightarrow> engine_t \<Rightarrow> (bool \<times> engine_t) outcome"
  and members :: "nat \<Rightarrow> engine_t \<Rightarrow> (bool \<times> engine_t) outcome"
  and members_loop :: "nat \<Rightarrow> bool \<Rightarrow> engine_t \<Rightarrow> engine_t outcome" where
  "value 0 e = OutOfFuel"
| "value (Suc n) e =
     (if tk_tag (e_tk e) = tagCloseSquare then Ret (False, setError e ErrUnexpectedCloseSquare)
      else if tk_tag (e_tk e) = tagCloseBrace then Ret (False, setError e ErrUnexpectedCloseBrace)
      else if tk_tag (e_tk e) = tagDoubleQuotedString then value_end (outputDoubleQuotedString e)
      else if tk_tag (e_tk e) = tagSingleQuotedString then value_end (outputSingleQuotedString e)
      else if tk_tag (e_tk e) = tagMultilineString then value_end (outputMultilineString e)
      else if tk_tag (e_tk e) = tagQuotelessString then value_quoteless e
      else if tk_tag (e_tk e) = tagOpenBrace
      then (let startPos = tk_pos (e_tk e) in
            obind (nextToken e) (\<lambda>e1.
              if isDone e1
              then Ret (True, if isEndOfInput e1 then setErrorAndPos e1 ErrUnclosedObject startPos
                              else e1)
              else if e_depth e1 = maxDepth then Ret (True, setError e1 ErrMaxObjectArrayDepth)
              else obind (members n (e1\<lparr>e_depth := e_depth e1 + 1\<rparr>)) (\<lambda>(r, e2).
                if r
                then Ret (True, if isEndOfInput e2
                                then setErrorAndPos e2 ErrUnclosedObject startPos else e2)
                else value_end (e2\<lparr>e_depth := e_depth e2 - 1\<rparr>))))
      else if tk_tag (e_tk e) = tagOpenSquare
      then obind (nextToken e) (\<lambda>e1.
             if isDone e1
             then Ret (True, if isEndOfInput e1 then setError e1 ErrUnclosedArray else e1)
             else let startPos = tk_pos (e_tk e1) in
               if e_depth e1 = maxDepth then Ret (True, setError e1 ErrMaxObjectArrayDepth)
               else obind (values n (e1\<lparr>e_depth := e_depth e1 + 1\<rparr>)) (\<lambda>(r, e2).
                 if r
                 then Ret (True, if isEndOfInput e2
                                 then setErrorAndPos e2 ErrUnclosedArray startPos else e2)
                 else value_end (e2\<lparr>e_depth := e_depth e2 - 1\<rparr>)))
      else Ret (False, setError e ErrSyntaxError))"
| "values 0 e = OutOfFuel"
| "values (Suc n) e =
     obind (values_loop n False (outputByte e 0x5B)) (\<lambda>e'.
       Ret (isDone (outputByte e' 0x5D), outputByte e' 0x5D))"
| "values_loop 0 notFirst e = OutOfFuel"
| "values_loop (Suc n) notFirst e =
     (if \<not> isDone e \<and> tk_tag (e_tk e) \<noteq> tagCloseSquare
      then obind (entry_separator ErrExpectValueAfterComma notFirst e) (\<lambda>(brk, e1).
             if brk then Ret e1
             else obind (value n e1) (\<lambda>(r, e2). if r then Ret e2 else values_loop n True e2))
      else Ret e)"
| "member 0 e = OutOfFuel"
| "member (Suc n) e =
     (if tk_tag (e_tk e) = tagCloseSquare then Ret (False, setError e ErrUnexpectedCloseSquare)
      else obind (nextToken
                    (if tk_tag (e_tk e) = tagDoubleQuotedString then outputDoubleQuotedString e
                     else if tk_tag (e_tk e) = tagSingleQuotedString then outputSingleQuotedString e
                     else if tk_tag (e_tk e) = tagQuotelessString then outputQuotelessString e
                     else setError e ErrExpectStringIdentifier)) (\<lambda>e1.
        if isDone e1
        then Ret (True, if isEndOfInput e1 then setError e1 ErrUnexpectedEndOfInput else e1)
        else if tk_tag (e_tk e1) \<noteq> tagColon then Ret (True, setError e1 ErrExpectColon)
        else obind (nextToken (outputByte e1 0x3A)) (\<lambda>e2.
          if isDone e2
          then Ret (True, if isEndOfInput e2 then setError e2 ErrUnexpectedEndOfInput else e2)
          else value n e2)))"
| "members 0 e = OutOfFuel"
| "members (Suc n) e =
     obind (members_loop n False (outputByte e 0x7B)) (\<lambda>e'.
       Ret (isDone (outputByte e' 0x7D), outputByte e' 0x7D))"
| "members_loop 0 notFirst e = OutOfFuel"
| "members_loop (Suc n) notFirst e =
     (if \<not> isDone e \<and> tk_tag (e_tk e) \<noteq> tagCloseBrace
      then obind (entry_separator ErrExpectIdentifierAfterComma notFirst e) (\<lambda>(brk, e1).
             if brk then Ret e1
             else obind (member n e1) (\<lambda>(r, e2). if r then Ret e2 else members_loop n True e2))
      else Ret e)"

subsection \<open>Main\<close>

definition myStrLen :: "byte list \<Rightarrow> nat" where
  "myStrLen str = length (takeWhile (\<lambda>c. c \<noteq> 0) str)"

definition engineInit :: "bool \<Rightarrow> byte list \<Rightarrow> engine_t" where
  "engineInit erange inp =
     \<lparr>e_lx = \<lparr>lx_in = inp, lx_p = inp, lx_pos = \<lparr>pos_b = 0, pos_s = 0, pos_l = 0\<rparr>\<rparr>,
      e_out = [],
      e_tk = \<lparr>tk_tag = tagUnknown, tk_pos = \<lparr>pos_b = 0, pos_s = 0, pos_l = 0\<rparr>, tk_val = NullVal\<rparr>,
      e_depth = 0, e_erange = erange\<rparr>"

text \<open>
  The state at the \<^verbatim>\<open>assert(e.tk.tag == tagError)\<close> of \<^verbatim>\<open>qjson_decode\<close>, for an input
  that is not empty. The fuel is four units for each byte of the input and eight more.
\<close>

definition parse :: "bool \<Rightarrow> byte list \<Rightarrow> engine_t outcome" where
  "parse erange inp =
     obind (nextToken (engineInit erange inp)) (\<lambda>e1.
       obind (members (4 * length inp + 8) e1) (\<lambda>(r, e2).
         if tk_tag (e_tk e2) = tagCloseBrace
         then Ret (e2\<lparr>e_tk := \<lparr>tk_tag = tagError, tk_pos = tk_pos (e_tk e2),
                                 tk_val = ErrVal ErrSyntaxError\<rparr>\<rparr>)
         else Ret e2))"

definition diagnostic :: "engine_t \<Rightarrow> byte list" where
  "diagnostic e =
     bytes (case tk_val (e_tk e) of ErrVal er \<Rightarrow> err_str er | _ \<Rightarrow> []) @
     bytes '' at line '' @ dec (int (pos_l (tk_pos (e_tk e))) + 1) @
     bytes '' col '' @
     dec (int (column (in_slice (e_lx e) (pos_s (tk_pos (e_tk e)))
                         (pos_b (tk_pos (e_tk e)) - pos_s (tk_pos (e_tk e))))) + 1)"

text \<open>
  \<^verbatim>\<open>qjson_decode\<close>: the arguments are whether \<^verbatim>\<open>errno\<close> is \<^verbatim>\<open>ERANGE\<close> at the call, and
  the text up to its terminating NUL; the result is the string returned with its
  terminating NUL.
\<close>

definition qjson_decode :: "bool \<Rightarrow> byte list \<Rightarrow> byte list outcome" where
  "qjson_decode erange qjsonText =
     (let len = myStrLen qjsonText in
      if len = 0 then Ret (bytes ''{}'' @ [0])
      else obind (parse erange (take len qjsonText)) (\<lambda>e.
        if isEndOfInput e then Ret (e_out (outputByte e 0))
        else Ret (diagnostic e @ [0])))"


section \<open>Notions used in the properties\<close>





text \<open>
  What the first bytes of the input are after \<open>skipSpaces\<close> when input is left: no white
  space, no newline and no start of a comment.
\<close>

definition token_start :: "slice_t \<Rightarrow> bool" where
  "token_start p = (whitespace p = 0 \<and> newline p = 0 \<and> hd p \<noteq> 0x23 \<and>
     \<not> (hd p = 0x2F \<and> length p \<ge> 2 \<and> (p ! 1 = 0x2F \<or> p ! 1 = 0x2A)))"

text \<open>
  \<open>adv k lx lx'\<close>: the tokenizer went from \<open>lx\<close> to \<open>lx'\<close> by taking at least \<open>k\<close> bytes from
  the front of the remaining input and counting them in the position.
\<close>

definition adv :: "nat \<Rightarrow> lexer_t \<Rightarrow> lexer_t \<Rightarrow> bool" where
  "adv k lx lx' =
     (lx_in lx' = lx_in lx \<and>
      (\<exists>n. k \<le> n \<and> lx_p lx' = drop n (lx_p lx) \<and> pos_b (lx_pos lx') = pos_b (lx_pos lx) + n))"

text \<open>The tags that \<open>nextToken\<close> gives to the current token.\<close>

definition token_tags :: "tokenTag_t set" where
  "token_tags = {tagError, tagOpenBrace, tagCloseBrace, tagOpenSquare, tagCloseSquare, tagColon,
                 tagComma, tagDoubleQuotedString, tagSingleQuotedString, tagMultilineString,
                 tagQuotelessString}"


section \<open>Properties\<close>


subsection \<open>The tokenizer takes bytes from the front of the input\<close>

lemma skipWhitespaces_ws: "whitespace (lx_p (skipWhitespaces lx)) = 0"
proof (induction lx rule: skipWhitespaces.induct)
  case (1 lx)
  show ?case
  proof (cases "whitespace (lx_p lx) = 0")
    case True
    then show ?thesis by (simp add: skipWhitespaces.simps [of lx])
  next
    case False
    with "1" show ?thesis by (simp add: skipWhitespaces.simps [of lx] Let_def)
  qed
qed

lemma skipWhitespaces_pos_b: "pos_b (lx_pos lx) \<le> pos_b (lx_pos (skipWhitespaces lx))"
proof (induction lx rule: skipWhitespaces.induct)
  case (1 lx)
  show ?case
  proof (cases "whitespace (lx_p lx) = 0")
    case True
    then show ?thesis by (simp add: skipWhitespaces.simps [of lx])
  next
    case False
    with "1" have "pos_b (lx_pos (popBytes lx (whitespace (lx_p lx))))
       \<le> pos_b (lx_pos (skipWhitespaces (popBytes lx (whitespace (lx_p lx)))))" by simp
    with False show ?thesis by (simp add: skipWhitespaces.simps [of lx] Let_def popBytes_def)
  qed
qed

lemma skipLineComment_not_start:
  "skipLineComment lx = (None, False, lx') \<Longrightarrow> lx_p lx \<noteq> [] \<Longrightarrow>
   hd (lx_p lx) \<noteq> 0x23 \<and> \<not> (hd (lx_p lx) = 0x2F \<and> length (lx_p lx) \<ge> 2 \<and> lx_p lx ! 1 = 0x2F)"
  by (auto simp: skipLineComment_def split: if_splits prod.splits option.splits)

lemma skipMultilineComment_not_start:
  "skipMultilineComment lx = (None, False, lx') \<Longrightarrow> lx_p lx \<noteq> [] \<Longrightarrow>
   \<not> (hd (lx_p lx) = 0x2F \<and> length (lx_p lx) \<ge> 2 \<and> lx_p lx ! 1 = 0x2A)"
  by (auto simp: skipMultilineComment_def split: if_splits dest: skipMultilineComment_loop_False)

lemma popNewline_False_newline: "popNewline lx = (False, lx') \<Longrightarrow> newline (lx_p lx) = 0"
  by (auto simp: popNewline_def Let_def split: if_splits)

lemma skipSpaces_token_start:
  "skipSpaces lx = (None, lx') \<Longrightarrow> lx_p lx' \<noteq> [] \<Longrightarrow> token_start (lx_p lx')"
proof (induction lx arbitrary: lx' rule: skipSpaces.induct)
  case (1 lx)
  from "1.prems" have ne: "lx_p lx \<noteq> []" by (auto simp: skipSpaces.simps [of lx])
  define lx1 where "lx1 = skipWhitespaces lx"
  obtain eo ok lx2 where lc: "skipLineComment lx1 = (eo, ok, lx2)" by (cases "skipLineComment lx1") auto
  show ?case
  proof (cases eo)
    case (Some er)
    with "1.prems" ne lc lx1_def show ?thesis by (simp add: skipSpaces.simps [of lx])
  next
    case None
    show ?thesis
    proof (cases ok)
      case True
      with "1.prems" ne lc None lx1_def have "skipSpaces lx2 = (None, lx')"
        by (simp add: skipSpaces.simps [of lx])
      then show ?thesis
        using "1.IH"(1) [of lx1 eo "(ok, lx2)" ok lx2 lx'] ne lx1_def lc None True "1.prems"(2)
        by simp
    next
      case False
      have lx2: "lx2 = lx1" using skipLineComment_False [of lx1 lx2] lc None False by simp
      obtain eo2 ok2 lx3 where mc: "skipMultilineComment lx2 = (eo2, ok2, lx3)"
        by (cases "skipMultilineComment lx2") auto
      show ?thesis
      proof (cases eo2)
        case (Some er)
        with "1.prems" ne lc None False mc lx1_def show ?thesis
          by (simp add: skipSpaces.simps [of lx])
      next
        case n2: None
        show ?thesis
        proof (cases ok2)
          case True
          with "1.prems" ne lc None False mc n2 lx1_def have "skipSpaces lx3 = (None, lx')"
            by (simp add: skipSpaces.simps [of lx])
          then show ?thesis
            using "1.IH"(2) [of lx1 eo "(ok, lx2)" ok lx2 eo2 "(ok2, lx3)" ok2 lx3 lx']
              ne lx1_def lc None False mc n2 True "1.prems"(2)
            by simp
        next
          case f2: False
          have lx3: "lx3 = lx2" using skipMultilineComment_False [of lx2 lx3] mc n2 f2 by simp
          obtain t lx4 where pn: "popNewline lx3 = (t, lx4)" by (cases "popNewline lx3") auto
          show ?thesis
          proof (cases t)
            case True
            with "1.prems" ne lc None False mc n2 f2 pn lx1_def
            have "skipSpaces lx4 = (None, lx')" by (simp add: skipSpaces.simps [of lx])
            then show ?thesis
              using "1.IH"(3) [of lx1 eo "(ok, lx2)" ok lx2 eo2 "(ok2, lx3)" ok2 lx3 t lx4 lx']
                ne lx1_def lc None False mc n2 f2 pn True "1.prems"(2)
              by simp
          next
            case f3: False
            with "1.prems" ne lc None False mc n2 f2 pn lx1_def
            have eq: "lx' = lx4" by (simp add: skipSpaces.simps [of lx])
            have lx4: "lx4 = lx3" using popNewline_False [of lx3 lx4] pn f3 by simp
            have all: "lx' = lx1" using eq lx4 lx3 lx2 by simp
            have p1: "lx_p lx1 \<noteq> []" using "1.prems"(2) all by simp
            have "whitespace (lx_p lx1) = 0" unfolding lx1_def by (rule skipWhitespaces_ws)
            moreover have "newline (lx_p lx1) = 0"
              using popNewline_False_newline [of lx3 lx4] pn f3 lx3 lx2 by simp
            moreover have "hd (lx_p lx1) \<noteq> 0x23 \<and>
                \<not> (hd (lx_p lx1) = 0x2F \<and> length (lx_p lx1) \<ge> 2 \<and> lx_p lx1 ! 1 = 0x2F)"
              using skipLineComment_not_start [of lx1 lx2] lc None False p1 by simp
            moreover have
              "\<not> (hd (lx_p lx1) = 0x2F \<and> length (lx_p lx1) \<ge> 2 \<and> lx_p lx1 ! 1 = 0x2A)"
              using skipMultilineComment_not_start [of lx2 lx3] mc n2 f2 p1 lx2 by simp
            ultimately show ?thesis unfolding all token_start_def by blast
          qed
        qed
      qed
    qed
  qed
qed

lemma adv_refl [simp]: "adv 0 lx lx"
  by (auto simp: adv_def intro: exI [of _ 0])

lemma adv_trans: "adv j a b \<Longrightarrow> adv k b c \<Longrightarrow> adv (j + k) a c"
  unfolding adv_def
  apply clarify
  subgoal for n m by (auto intro!: exI [of _ "n + m"] simp: add.commute)
  done

lemma adv_mono: "adv k a b \<Longrightarrow> j \<le> k \<Longrightarrow> adv j a b"
  by (auto simp: adv_def)

lemma adv_trans0: "adv j a b \<Longrightarrow> adv k b c \<Longrightarrow> adv 0 a c"
  using adv_trans adv_mono by (metis le0)

lemma adv_popBytes [simp]: "adv n lx (popBytes lx n)"
  by (auto simp: adv_def popBytes_def)

lemma adv_popBytes0 [simp]: "adv 0 lx (popBytes lx n)"
  by (auto simp: adv_def popBytes_def)

lemma adv_popNewline: "popNewline lx = (t, lx') \<Longrightarrow> adv 0 lx lx'"
  by (auto simp: adv_def popNewline_def popBytes_def Let_def split: if_splits)

lemma adv_popBytes_then: "adv k (popBytes lx n) lx' \<Longrightarrow> adv n lx lx'"
  unfolding adv_def popBytes_def
  by (clarsimp simp: add.commute)

lemma adv_step: "adv k (popBytes lx n) lx' \<Longrightarrow> adv 0 lx lx'"
  using adv_popBytes_then adv_mono by blast

lemma adv_step_newline: "popNewline lx = (t, lx1) \<Longrightarrow> adv k lx1 lx' \<Longrightarrow> adv 0 lx lx'"
  using adv_popNewline adv_trans0 by blast

lemma skipRestOfLine_adv: "skipRestOfLine lx = (r, lx') \<Longrightarrow> adv 0 lx lx'"
proof (induction lx arbitrary: r lx' rule: skipRestOfLine.induct)
  case (1 lx)
  show ?case
    using "1.prems" "1.IH"
    by (subst (asm) skipRestOfLine.simps)
       (auto split: prod.splits bool.splits if_splits option.splits
             intro: adv_popNewline; blast intro: adv_step)
qed

lemma skipWhitespaces_adv: "adv 0 lx (skipWhitespaces lx)"
proof (induction lx rule: skipWhitespaces.induct)
  case (1 lx)
  show ?case
    using "1.IH"
    by (subst skipWhitespaces.simps) (auto simp: Let_def intro: adv_popBytes_then adv_mono)
qed

lemma skipMultilineComment_loop_adv:
  "skipMultilineComment_loop sp lx = (r, ok, lx') \<Longrightarrow> adv 0 lx lx'"
proof (induction sp lx arbitrary: r ok lx' rule: skipMultilineComment_loop.induct)
  case (1 sp lx)
  show ?case
    using "1.prems" "1.IH"
    by (subst (asm) skipMultilineComment_loop.simps)
       (auto split: prod.splits bool.splits if_splits option.splits
             intro: adv_popNewline adv_step_newline; blast intro: adv_step)
qed

lemma skipLineComment_adv: "skipLineComment lx = (r, ok, lx') \<Longrightarrow> adv 0 lx lx'"
  by (auto simp: skipLineComment_def split: if_splits prod.splits option.splits
      dest: skipRestOfLine_adv)

lemma skipMultilineComment_adv: "skipMultilineComment lx = (r, ok, lx') \<Longrightarrow> adv 0 lx lx'"
  by (auto simp: skipMultilineComment_def split: if_splits
      dest!: skipMultilineComment_loop_adv intro: adv_step)

lemma skipSpaces_adv: "skipSpaces lx = (r, lx') \<Longrightarrow> adv 0 lx lx'"
proof (induction lx arbitrary: r lx' rule: skipSpaces.induct)
  case (1 lx)
  show ?case
    using "1.prems" "1.IH"
    by (subst (asm) skipSpaces.simps)
       (auto simp: Let_def split: prod.splits bool.splits if_splits option.splits;
        blast intro: adv_trans0 skipWhitespaces_adv skipLineComment_adv skipMultilineComment_adv
          adv_popNewline)
qed

lemma doubleQuotedString_loop_adv:
  "doubleQuotedString_loop sp lx = (r, sl, lx') \<Longrightarrow> adv 0 lx lx' \<and> (r = None \<longrightarrow> sl \<noteq> None)"
proof (induction sp lx arbitrary: r sl lx' rule: doubleQuotedString_loop.induct)
  case (1 sp lx)
  show ?case
    using "1.prems" "1.IH"
    by (subst (asm) doubleQuotedString_loop.simps)
       (auto simp: Let_def newError_def split: prod.splits bool.splits if_splits option.splits;
        blast intro: adv_step)
qed

lemma singleQuotedString_loop_adv:
  "singleQuotedString_loop sp lx = (r, sl, lx') \<Longrightarrow> adv 0 lx lx' \<and> (r = None \<longrightarrow> sl \<noteq> None)"
proof (induction sp lx arbitrary: r sl lx' rule: singleQuotedString_loop.induct)
  case (1 sp lx)
  show ?case
    using "1.prems" "1.IH"
    by (subst (asm) singleQuotedString_loop.simps)
       (auto simp: Let_def newError_def split: prod.splits bool.splits if_splits option.splits;
        blast intro: adv_step)
qed

lemma multilineString_loop_adv:
  "multilineString_loop mg sp lx = (r, sl, lx') \<Longrightarrow> adv 0 lx lx' \<and> (r = None \<longrightarrow> sl \<noteq> None)"
proof (induction mg sp lx arbitrary: r sl lx' rule: multilineString_loop.induct)
  case (1 mg sp lx)
  show ?case
    using "1.prems" "1.IH"
    by (subst (asm) multilineString_loop.simps)
       (auto simp: Let_def newError_def split: prod.splits bool.splits if_splits option.splits;
        blast intro: adv_step adv_step_newline adv_popNewline adv_trans0)
qed

lemma doubleQuotedString_None:
  "doubleQuotedString lx = (None, None, lx') \<Longrightarrow> lx' = lx"
  using doubleQuotedString_loop_adv [of "lx_pos lx" "popBytes lx 1" None None lx']
  by (auto simp: doubleQuotedString_def split: if_splits)

lemma singleQuotedString_None:
  "singleQuotedString lx = (None, None, lx') \<Longrightarrow> lx' = lx"
  using singleQuotedString_loop_adv [of "lx_pos lx" "popBytes lx 1" None None lx']
  by (auto simp: singleQuotedString_def split: if_splits)

lemma multilineString_body_not_None:
  "multilineString_body mg sp lx = (None, None, lx') \<Longrightarrow> False"
  using multilineString_loop_adv [of mg sp _ None None lx']
  by (auto simp: multilineString_body_def Let_def split: if_splits)

lemma multilineString_None:
  "multilineString lx = (None, None, lx') \<Longrightarrow> lx' = lx"
  by (auto simp: multilineString_def Let_def
           split: if_splits prod.splits option.splits bool.splits
           dest: multilineString_body_not_None)

lemma delimiter_Unknown:
  "delimiter lx = (tagUnknown, lx') \<Longrightarrow> lx' = lx \<and> tkTagTable (hd (lx_p lx)) = tagUnknown"
  by (auto simp: delimiter_def Let_def split: if_splits)

lemma quotelessString_loop_endIdx:
  "quotelessString_loop endIdx lx = (None, endIdx', lx') \<Longrightarrow> endIdx \<le> pos_b (lx_pos lx) \<Longrightarrow>
   endIdx \<le> endIdx'"
proof (induction endIdx lx arbitrary: endIdx' lx' rule: quotelessString_loop.induct)
  case (1 endIdx lx)
  note prems = "1.prems"
  define stop where "stop = (stopByte (hd (lx_p lx)) \<and>
              ((hd (lx_p lx) = 0x2F \<and> length (lx_p lx) > 1 \<and>
                  (lx_p lx ! 1 = 0x2F \<or> lx_p lx ! 1 = 0x2A)) \<or>
               newline (lx_p lx) \<noteq> 0 \<or> (hd (lx_p lx) \<noteq> 0x0D \<and> hd (lx_p lx) \<noteq> 0x2F)))"
  note eq = prems(1) [unfolded quotelessString_loop.simps [of endIdx lx], folded stop_def]
  note IH = "1.IH" [folded stop_def]

  show ?case
  proof (cases "lx_p lx = []")
    case True
    with eq show ?thesis by simp
  next
    case ne: False
    show ?thesis
    proof (cases "whitespace (lx_p lx) \<noteq> 0")
      case True
      with ne eq have "quotelessString_loop endIdx (skipWhitespaces lx) = (None, endIdx', lx')"
        by simp
      moreover have "endIdx \<le> pos_b (lx_pos (skipWhitespaces lx))"
        using prems(2) skipWhitespaces_pos_b [of lx] by simp
      ultimately show ?thesis using IH(1) ne True by blast
    next
      case ws: False
      show ?thesis
      proof (cases stop)
        case True
        show ?thesis
        proof (cases "lenISODateTime lx = 0")
          case z: True
          with ne ws True eq show ?thesis by simp
        next
          case nz: False
          define lx1 where "lx1 = popBytes lx (lenISODateTime lx)"
          from ne ws True nz eq
          have "quotelessString_loop (pos_b (lx_pos lx1)) lx1 = (None, endIdx', lx')"
            unfolding lx1_def by (simp add: Let_def)
          then have "pos_b (lx_pos lx1) \<le> endIdx'"
            using IH(2) [OF ne _ True refl nz refl] ws
            unfolding lx1_def by simp
          moreover have "endIdx \<le> pos_b (lx_pos lx1)"
            using prems(2) by (simp add: lx1_def popBytes_def)
          ultimately show ?thesis by simp
        qed
      next
        case ns: False
        obtain r n where q: "qchar lx = (r, n)" by (cases "qchar lx") auto
        show ?thesis
        proof (cases r)
          case (Some er)
          with ne ws ns q eq show ?thesis by simp
        next
          case None
          define lx1 where "lx1 = popBytes lx n"
          from ne ws ns q None eq
          have "quotelessString_loop (pos_b (lx_pos lx1)) lx1 = (None, endIdx', lx')"
            unfolding lx1_def by (simp add: Let_def)
          then have "pos_b (lx_pos lx1) \<le> endIdx'"
            using IH(3) [OF ne _ ns q [symmetric] None refl] ws
            unfolding lx1_def by simp
          moreover have "endIdx \<le> pos_b (lx_pos lx1)"
            using prems(2) by (simp add: lx1_def popBytes_def)
          ultimately show ?thesis by simp
        qed
      qed
    qed
  qed
qed

lemma token_start_not_stop:
  assumes "token_start p" "p \<noteq> []" "tkTagTable (hd p) = tagUnknown"
  shows "\<not> (stopByte (hd p) \<and>
              ((hd p = 0x2F \<and> length p > 1 \<and> (p ! 1 = 0x2F \<or> p ! 1 = 0x2A)) \<or>
               newline p \<noteq> 0 \<or> (hd p \<noteq> 0x0D \<and> hd p \<noteq> 0x2F)))"
proof -
  from assms(1) have ts: "newline p = 0" "hd p \<noteq> 0x23"
    "\<not> (hd p = 0x2F \<and> length p \<ge> 2 \<and> (p ! 1 = 0x2F \<or> p ! 1 = 0x2A))"
    by (auto simp: token_start_def)
  have lf: "hd p \<noteq> 0x0A"
  proof
    assume "hd p = 0x0A"
    with assms(2) obtain r where "p = 0x0A # r" by (cases p) auto
    with ts(1) show False by simp
  qed
  have dl: "hd p \<noteq> 0x2C" "hd p \<noteq> 0x3A" "hd p \<noteq> 0x5B" "hd p \<noteq> 0x5D" "hd p \<noteq> 0x7B"
    "hd p \<noteq> 0x7D"
    using assms(3) by (auto simp: tkTagTable_def)
  show ?thesis using ts lf dl unfolding stopByte_def
    by (metis One_nat_def Suc_1 Suc_leI)
qed

lemma quotelessString_not_empty:
  assumes "token_start (lx_p lx)" "lx_p lx \<noteq> []" "tkTagTable (hd (lx_p lx)) = tagUnknown"
  shows "quotelessString lx \<noteq> (None, None, lx')"
proof
  assume a: "quotelessString lx = (None, None, lx')"
  let ?s = "pos_b (lx_pos lx)"
  define stop where "stop = (stopByte (hd (lx_p lx)) \<and>
              ((hd (lx_p lx) = 0x2F \<and> length (lx_p lx) > 1 \<and>
                  (lx_p lx ! 1 = 0x2F \<or> lx_p lx ! 1 = 0x2A)) \<or>
               newline (lx_p lx) \<noteq> 0 \<or> (hd (lx_p lx) \<noteq> 0x0D \<and> hd (lx_p lx) \<noteq> 0x2F)))"
  from a have l: "quotelessString_loop ?s lx = (None, ?s, lx')"
    by (auto simp: quotelessString_def Let_def split: prod.splits option.splits if_splits)
  note eq = l [unfolded quotelessString_loop.simps [of ?s lx], folded stop_def]
  have ws: "whitespace (lx_p lx) = 0" using assms(1) by (simp add: token_start_def)
  have ns: "\<not> stop" using token_start_not_stop [OF assms] unfolding stop_def .
  obtain r n where q: "qchar lx = (r, n)" by (cases "qchar lx") auto
  show False
  proof (cases r)
    case (Some er)
    with eq assms(2) ws ns q show False by simp
  next
    case None
    have n: "0 < n" using qchar_pos [of lx n] q None assms(2) by simp
    define lx1 where "lx1 = popBytes lx n"
    from eq assms(2) ws ns q None
    have "quotelessString_loop (pos_b (lx_pos lx1)) lx1 = (None, ?s, lx')"
      unfolding lx1_def by (simp add: Let_def)
    from quotelessString_loop_endIdx [OF this] have "pos_b (lx_pos lx1) \<le> ?s" by simp
    with n show False by (simp add: lx1_def popBytes_def)
  qed
qed

lemma tkTagTable_range: "tkTagTable c = tagUnknown \<or> tkTagTable c \<in> token_tags"
  by (simp add: tkTagTable_def token_tags_def)

lemma delimiter_tag: "delimiter lx = (tag, lx') \<Longrightarrow> tag = tagUnknown \<or> tag \<in> token_tags"
  using tkTagTable_range [of "hd (lx_p lx)"]
  by (auto simp: delimiter_def Let_def split: if_splits)

lemma errToken_tag [simp]: "tk_tag (errToken er) = tagError"
  by (simp add: errToken_def)

lemma nextToken_returns:
  assumes "tk_tag (e_tk e) \<noteq> tagError"
  shows "\<exists>e'. nextToken e = Ret e' \<and> tk_tag (e_tk e') \<in> token_tags"
proof -
  obtain r lx1 where sk: "skipSpaces (e_lx e) = (r, lx1)" by (cases "skipSpaces (e_lx e)") auto
  show ?thesis
  proof (cases r)
    case (Some er)
    with assms sk show ?thesis by (simp add: nextToken_def token_tags_def)
  next
    case None
    show ?thesis
    proof (cases "lx_p lx1 = []")
      case True
      with assms sk None show ?thesis by (simp add: nextToken_def token_tags_def)
    next
      case ne: False
      have ts: "token_start (lx_p lx1)" using skipSpaces_token_start sk None ne by blast
      obtain tag lx2 where dl: "delimiter lx1 = (tag, lx2)" by (cases "delimiter lx1") auto
      show ?thesis
      proof (cases "tag = tagUnknown")
        case False
        with delimiter_tag [OF dl] have "tag \<in> token_tags" by simp
        with assms sk None ne dl False show ?thesis by (simp add: nextToken_def Let_def)
      next
        case True
        from delimiter_Unknown dl True
        have lx2: "lx2 = lx1" and un: "tkTagTable (hd (lx_p lx1)) = tagUnknown" by blast+
        obtain r3 s3 lx3 where dq: "doubleQuotedString lx1 = (r3, s3, lx3)"
          by (cases "doubleQuotedString lx1") auto
        have step1: "nextToken e =
            (case doubleQuotedString lx1 of
              (Some er, _, lx3) \<Rightarrow> Ret (e\<lparr>e_lx := lx3, e_tk := errToken er\<rparr>)
            | (None, Some sl, lx3) \<Rightarrow>
                Ret (e\<lparr>e_lx := lx3,
                        e_tk := \<lparr>tk_tag = tagDoubleQuotedString, tk_pos = lx_pos lx1,
                                  tk_val = Slice sl\<rparr>\<rparr>)
            | (None, None, lx3) \<Rightarrow>
              (case singleQuotedString lx3 of
                (Some er, _, lx4) \<Rightarrow> Ret (e\<lparr>e_lx := lx4, e_tk := errToken er\<rparr>)
              | (None, Some sl, lx4) \<Rightarrow>
                  Ret (e\<lparr>e_lx := lx4,
                          e_tk := \<lparr>tk_tag = tagSingleQuotedString, tk_pos = lx_pos lx1,
                                    tk_val = Slice sl\<rparr>\<rparr>)
              | (None, None, lx4) \<Rightarrow>
                (case multilineString lx4 of
                  (Some er, _, lx5) \<Rightarrow> Ret (e\<lparr>e_lx := lx5, e_tk := errToken er\<rparr>)
                | (None, Some sl, lx5) \<Rightarrow>
                    Ret (e\<lparr>e_lx := lx5,
                            e_tk := \<lparr>tk_tag = tagMultilineString, tk_pos = lx_pos lx1,
                                      tk_val = Slice sl\<rparr>\<rparr>)
                | (None, None, lx5) \<Rightarrow>
                  (case quotelessString lx5 of
                    (Some er, _, lx6) \<Rightarrow> Ret (e\<lparr>e_lx := lx6, e_tk := errToken er\<rparr>)
                  | (None, Some sl, lx6) \<Rightarrow>
                      Ret (e\<lparr>e_lx := lx6,
                              e_tk := \<lparr>tk_tag = tagQuotelessString, tk_pos = lx_pos lx1,
                                        tk_val = Slice sl\<rparr>\<rparr>)
                  | (None, None, lx6) \<Rightarrow> Abort AssertFailed))))"
          using assms sk None ne dl True lx2 by (simp add: nextToken_def Let_def)
        show ?thesis
        proof (cases r3)
          case (Some er)
          with step1 dq show ?thesis by (simp add: token_tags_def)
        next
          case n3: None
          show ?thesis
          proof (cases s3)
            case (Some sl)
            with step1 dq n3 show ?thesis by (simp add: token_tags_def)
          next
            case s3: None
            have lx3: "lx3 = lx1" using doubleQuotedString_None dq n3 s3 by blast
            obtain r4 s4 lx4 where sq: "singleQuotedString lx1 = (r4, s4, lx4)"
              by (cases "singleQuotedString lx1") auto
            show ?thesis
            proof (cases r4)
              case (Some er)
              with step1 dq n3 s3 lx3 sq show ?thesis by (simp add: token_tags_def)
            next
              case n4: None
              show ?thesis
              proof (cases s4)
                case (Some sl)
                with step1 dq n3 s3 lx3 sq n4 show ?thesis by (simp add: token_tags_def)
              next
                case s4: None
                have lx4: "lx4 = lx1" using singleQuotedString_None sq n4 s4 by blast
                obtain r5 s5 lx5 where ml: "multilineString lx1 = (r5, s5, lx5)"
                  by (cases "multilineString lx1") auto
                show ?thesis
                proof (cases r5)
                  case (Some er)
                  with step1 dq n3 s3 lx3 sq n4 s4 lx4 ml show ?thesis
                    by (simp add: token_tags_def)
                next
                  case n5: None
                  show ?thesis
                  proof (cases s5)
                    case (Some sl)
                    with step1 dq n3 s3 lx3 sq n4 s4 lx4 ml n5 show ?thesis
                      by (simp add: token_tags_def)
                  next
                    case s5: None
                    have lx5: "lx5 = lx1" using multilineString_None ml n5 s5 by blast
                    obtain r6 s6 lx6 where ql: "quotelessString lx1 = (r6, s6, lx6)"
                      by (cases "quotelessString lx1") auto
                    have "r6 \<noteq> None \<or> s6 \<noteq> None"
                      using quotelessString_not_empty [OF ts ne un, of lx6] ql by auto
                    then show ?thesis
                      using step1 dq n3 s3 lx3 sq n4 s4 lx4 ml n5 s5 lx5 ql
                      by (cases r6; cases s6) (simp_all add: token_tags_def)
                  qed
                qed
              qed
            qed
          qed
        qed
      qed
    qed
  qed
qed


subsection \<open>The current token is always set\<close>

text \<open>
  C10. Called with a current token that is not in the Error state, \<open>nextToken\<close> returns
  with the current token set, to an error or to one of the ten kinds of token: the
  \<^verbatim>\<open>assert(false)\<close> at its end is never reached. The reason is the second statement: where
  \<open>skipSpaces\<close> has stopped with input left that does not start with a delimiter,
  \<open>quotelessString\<close> does not return an empty slice without an error.
\<close>

theorem nextToken_sets_the_token:
  "(tk_tag (e_tk e) \<noteq> tagError \<longrightarrow>
      (\<exists>e'. nextToken e = Ret e' \<and> tk_tag (e_tk e') \<in> token_tags)) \<and>
   (skipSpaces lx0 = (None, lx) \<and> lx_p lx \<noteq> [] \<and> fst (delimiter lx) = tagUnknown \<longrightarrow>
      quotelessString lx \<noteq> (None, None, lx'))"
proof (intro conjI impI)
  assume "tk_tag (e_tk e) \<noteq> tagError"
  then show "\<exists>e'. nextToken e = Ret e' \<and> tk_tag (e_tk e') \<in> token_tags"
    by (rule nextToken_returns)
next
  assume a: "skipSpaces lx0 = (None, lx) \<and> lx_p lx \<noteq> [] \<and> fst (delimiter lx) = tagUnknown"
  then have ts: "token_start (lx_p lx)" using skipSpaces_token_start by blast
  obtain lx2 where "delimiter lx = (tagUnknown, lx2)" using a by (cases "delimiter lx") auto
  then have "tkTagTable (hd (lx_p lx)) = tagUnknown" using delimiter_Unknown by blast
  with ts a show "quotelessString lx \<noteq> (None, None, lx')"
    using quotelessString_not_empty by blast
qed

theorem nextToken_sets_the_token_witness:
  \<open>tk_tag (e_tk (engineInit False (bytes '' # c'' @ [0x0A] @ bytes ''ab c: 1''))) \<noteq> tagError \<and>
   (\<exists>e'. nextToken (engineInit False (bytes '' # c'' @ [0x0A] @ bytes ''ab c: 1'')) = Ret e' \<and>
         tk_tag (e_tk e') \<in> token_tags) \<and>
   skipSpaces (e_lx (engineInit False (bytes '' # c'' @ [0x0A] @ bytes ''ab c: 1''))) =
     (None, \<lparr>lx_in = bytes '' # c'' @ [0x0A] @ bytes ''ab c: 1'', lx_p = bytes ''ab c: 1'',
              lx_pos = \<lparr>pos_b = 5, pos_s = 5, pos_l = 1\<rparr>\<rparr>) \<and>
   lx_p \<lparr>lx_in = bytes '' # c'' @ [0x0A] @ bytes ''ab c: 1'', lx_p = bytes ''ab c: 1'',
         lx_pos = \<lparr>pos_b = 5, pos_s = 5, pos_l = 1\<rparr>\<rparr> \<noteq> [] \<and>
   fst (delimiter \<lparr>lx_in = bytes '' # c'' @ [0x0A] @ bytes ''ab c: 1'', lx_p = bytes ''ab c: 1'',
                    lx_pos = \<lparr>pos_b = 5, pos_s = 5, pos_l = 1\<rparr>\<rparr>) = tagUnknown \<and>
   quotelessString \<lparr>lx_in = bytes '' # c'' @ [0x0A] @ bytes ''ab c: 1'', lx_p = bytes ''ab c: 1'',
                     lx_pos = \<lparr>pos_b = 5, pos_s = 5, pos_l = 1\<rparr>\<rparr> \<noteq>
     (None, None, \<lparr>lx_in = bytes '' # c'' @ [0x0A] @ bytes ''ab c: 1'', lx_p = bytes ''ab c: 1'',
                    lx_pos = \<lparr>pos_b = 5, pos_s = 5, pos_l = 1\<rparr>\<rparr>)\<close>
proof -
  have a: "tk_tag (e_tk (engineInit False (bytes '' # c'' @ [0x0A] @ bytes ''ab c: 1''))) \<noteq> tagError"
    by (simp add: engineInit_def)
  have b: \<open>skipSpaces (e_lx (engineInit False (bytes '' # c'' @ [0x0A] @ bytes ''ab c: 1''))) =
     (None, \<lparr>lx_in = bytes '' # c'' @ [0x0A] @ bytes ''ab c: 1'', lx_p = bytes ''ab c: 1'',
              lx_pos = \<lparr>pos_b = 5, pos_s = 5, pos_l = 1\<rparr>\<rparr>)\<close>
    by code_simp
  have c: \<open>lx_p \<lparr>lx_in = bytes '' # c'' @ [0x0A] @ bytes ''ab c: 1'', lx_p = bytes ''ab c: 1'',
         lx_pos = \<lparr>pos_b = 5, pos_s = 5, pos_l = 1\<rparr>\<rparr> \<noteq> []\<close>
    by code_simp
  have d: \<open>fst (delimiter \<lparr>lx_in = bytes '' # c'' @ [0x0A] @ bytes ''ab c: 1'',
                    lx_p = bytes ''ab c: 1'',
                    lx_pos = \<lparr>pos_b = 5, pos_s = 5, pos_l = 1\<rparr>\<rparr>) = tagUnknown\<close>
    by code_simp
  show ?thesis
    using a b c d nextToken_sets_the_token
      [of "engineInit False (bytes '' # c'' @ [0x0A] @ bytes ''ab c: 1'')"
          "e_lx (engineInit False (bytes '' # c'' @ [0x0A] @ bytes ''ab c: 1''))"
          \<open>\<lparr>lx_in = bytes '' # c'' @ [0x0A] @ bytes ''ab c: 1'', lx_p = bytes ''ab c: 1'',
              lx_pos = \<lparr>pos_b = 5, pos_s = 5, pos_l = 1\<rparr>\<rparr>\<close>
          \<open>\<lparr>lx_in = bytes '' # c'' @ [0x0A] @ bytes ''ab c: 1'', lx_p = bytes ''ab c: 1'',
              lx_pos = \<lparr>pos_b = 5, pos_s = 5, pos_l = 1\<rparr>\<rparr>\<close>]
    by blast
qed


subsection \<open>Advancing in the Error state\<close>





subsection \<open>Literal values\<close>
















subsection \<open>Integer literals\<close>

text \<open>
  C6. An integer literal that denotes a value of at least \<open>2^63\<close> should fail with
  \<^verbatim>\<open>number overflow\<close>, and a smaller one should evaluate to its value. The decimal
  literal \<open>18446744073709551616\<close>, which is \<open>2^64\<close>, evaluates to 0 instead: the guard of
  \<^verbatim>\<open>decodeIntLiteral\<close> lets \<open>val * 10 + digit\<close> wrap around when \<open>val\<close> is
  \<open>0x1999999999999999\<close> and the digit is 6 or more. The octal literal
  \<open>0o20000000000\<close>, which is \<open>2^31\<close>, is refused as an overflow, and \<open>0o40000000000\<close>
  evaluates to 0: \<^verbatim>\<open>decodeOctLiteral\<close> returns \<^verbatim>\<open>int\<close>.
\<close>

theorem integer_literal_overflow_is_missed:
  \<open>qjson_decode er (bytes ''a: 18446744073709551616'') = Ret (bytes ''{"a":0}'' @ [0]) \<and>
   qjson_decode er (bytes ''a: 0o20000000000'') =
     Ret (bytes ''number overflow at line 1 col 4'' @ [0]) \<and>
   qjson_decode er (bytes ''a: 0o40000000000'') = Ret (bytes ''{"a":0}'' @ [0])\<close>
  by (induction er) code_simp+

subsection \<open>ISO date and time with hour 24\<close>

text \<open>
  C2. A date and time with hour 24 should be refused with \<^verbatim>\<open>invalid ISO date time\<close>
  unless minute, second and fraction are all zero. \<open>makeTime\<close> joins the three tests with
  \<^verbatim>\<open>&&\<close>, so it refuses hour 24 only when all three are different from zero:
  \<open>2020-01-01T24:30\<close> is accepted and evaluates to the seconds of \<open>2020-01-02T00:30Z\<close>.
\<close>

theorem hour_24_with_minutes_is_accepted:
  \<open>makeTime \<lparr>dt_y = 2020, dt_M = 1, dt_d = 1, dt_h = 24, dt_m = 30, dt_s = 0, dt_ho = 0,
              dt_mo = 0, dt_f = Finite False 0\<rparr> = Finite False 1577925000 \<and>
   qjson_decode er (bytes ''t: 2020-01-01T24:30'') = Ret (bytes ''{"t":1577925000}'' @ [0])\<close>
  by (induction er) code_simp+

subsection \<open>Escape sequences of double-quoted strings\<close>

text \<open>
  C4. In a double-quoted string a backslash that does not start one of the escapes of JSON
  should make \<open>qjson_decode\<close> fail with the message \<^verbatim>\<open>invalid escape sequence\<close> at the
  backslash. For \<^verbatim>\<open>\u\<close> the source tests the hexadecimal digits at offsets 2, 3, 5 and 5:
  the digit at offset 4 is not tested, and \<^verbatim>\<open>"\u00G0"\<close> is copied to the output. Where
  the error is raised, at the backslash, its text is spelled \<^verbatim>\<open>invalid escape squence\<close>.
\<close>

theorem bad_unicode_escape_is_copied:
  \<open>qjson_decode er (bytes ''a: "'' @ [0x5C] @ bytes ''u00G0"'') =
     Ret (bytes ''{"a":"'' @ [0x5C] @ bytes ''u00G0"}'' @ [0]) \<and>
   qjson_decode er (bytes ''a: "'' @ [0x5C] @ bytes ''q"'') =
     Ret (bytes ''invalid escape squence at line 1 col 5'' @ [0])\<close>
  by (induction er) code_simp+

subsection \<open>Duration suffixes\<close>

text \<open>
  C8. \<open>qjson_decode\<close> of \<^verbatim>\<open>ttl: 1h30m\<close> returns exactly \<^verbatim>\<open>{"ttl":5400}\<close>. A unit suffix
  is a left operator whose right operand is optional: \<open>1h30m\<close> evaluates to
  \<open>1 * 3600 + 30 * 60\<close> in \<^verbatim>\<open>double\<close> arithmetic, which is the double 5400 that
  \<^verbatim>\<open>%.16g\<close> prints as \<open>5400\<close>, and \<open>1h\<close>, where no operand follows, evaluates to 3600.
\<close>

theorem ttl_1h30m_is_5400:
  \<open>qjson_decode er (bytes ''ttl: 1h30m'') = Ret (bytes ''{"ttl":5400}'' @ [0]) \<and>
   evalNumberExpression er (bytes ''1h30m'') =
     Ret (\<lparr>nt_tag = tagDecimalVal, nt_pos = 0,
           nt_val = FVal (d_add (d_mul (d_of_int 1) (d_of_int 3600))
                                (d_mul (d_of_int 30) (d_of_int 60)))\<rparr>, er) \<and>
   d_add (d_mul (d_of_int 1) (d_of_int 3600)) (d_mul (d_of_int 30) (d_of_int 60)) =
     Finite False 5400 \<and>
   fmt_g16 (Finite False 5400) = bytes ''5400'' \<and>
   evalNumberExpression er (bytes ''1h'') =
     Ret (\<lparr>nt_tag = tagDecimalVal, nt_pos = 0, nt_val = FVal (Finite False 3600)\<rparr>, er)\<close>
  by (induction er) code_simp+

subsection \<open>The result of the decoder\<close>

text \<open>
  C1. For every input \<open>qjson_decode\<close> should return a string, which starts with \<^verbatim>\<open>{\<close>
  exactly when no error occurred. On the input below it returns nothing: the expression
  divides \<open>-2^63\<close> by \<open>-1\<close>, \<open>ledDivision\<close> tests the divisor for zero only, and the
  division raises a divide error that ends the process.
\<close>

theorem division_overflow_aborts:
  \<open>qjson_decode er (bytes ''a: (0-9223372036854775807-1)/(0-1)'') = Abort DivideError\<close>
  by (induction er) code_simp+


end
